theory Spec2Isabelle
  imports Main "HOL-Library.Word"
begin

section \<open>Blobs\<close>

text \<open>
  A \<^verbatim>\<open>Blob\<close> is an immutable byte buffer with a declared content type.
  \<^verbatim>\<open>new Blob(parts, { type })\<close> concatenates the bytes of its parts in order and
  declares the given type, whatever the types of the parts are.
\<close>

type_synonym byte = "8 word"

record blob =
  blob_bytes :: "byte list"
  blob_type :: string

definition blob_size :: "blob \<Rightarrow> nat" where
  "blob_size b = length (blob_bytes b)"

definition new_Blob :: "blob list \<Rightarrow> string \<Rightarrow> blob" where
  "new_Blob parts mimeType =
     \<lparr>blob_bytes = concat (map blob_bytes parts), blob_type = mimeType\<rparr>"

section \<open>The platform: MediaRecorder, event loop, IndexedDB\<close>

text \<open>
  The capture primitive is the browser's \<^verbatim>\<open>MediaRecorder\<close>. The source never calls
  \<^verbatim>\<open>MediaRecorder.pause()\<close>, so only the states \<^verbatim>\<open>inactive\<close> and \<^verbatim>\<open>recording\<close>
  occur. The recorder is started without a time slice: the data gathered during one
  capture leg is handed over in a single \<^verbatim>\<open>dataavailable\<close> event when the leg is
  stopped, followed by a \<^verbatim>\<open>stop\<close> event. Both events are queued: they are
  fired after the code that called \<^verbatim>\<open>MediaRecorder.stop()\<close> has run to completion.
  A capture primitive keeps the \<^verbatim>\<open>mimeType\<close> option it was constructed with (the
  empty string when none was given), and the content type the platform stamps on the
  blobs it hands over, which is the platform's to choose: Chromium constructed with
  \<^verbatim>\<open>audio/webm\<close> hands over blobs of type \<^verbatim>\<open>audio/webm;codecs=opus\<close>.
\<close>

datatype recording_state = Inactive | Recording

record media_recorder =
  mr_state :: recording_state
  mr_mimeType :: string
  mr_encoding :: string
  mr_gathered :: "byte list"

datatype error = NotInitialized | InvalidStateError | DeviceUnavailable

text \<open>
  Tasks waiting in the event loop: the two MediaRecorder events, and the pending
  \<^verbatim>\<open>indexedDB.open\<close> requests of the two save operations.
\<close>

datatype task =
    DataAvailable blob
  | StopEvent
  | ChunkOpenRequest blob
  | RecordingOpenRequest

definition mr_start :: "media_recorder \<Rightarrow> error + media_recorder" where
  "mr_start m =
     (if mr_state m \<noteq> Inactive then Inl InvalidStateError
      else Inr (m\<lparr>mr_state := Recording, mr_gathered := []\<rparr>))"

definition mr_stop :: "media_recorder \<Rightarrow> media_recorder \<times> task list" where
  "mr_stop m =
     (if mr_state m = Inactive then (m, [])
      else (m\<lparr>mr_state := Inactive, mr_gathered := []\<rparr>,
            [DataAvailable \<lparr>blob_bytes = mr_gathered m, blob_type = mr_encoding m\<rparr>,
             StopEvent]))"

definition mr_capture :: "byte list \<Rightarrow> media_recorder \<Rightarrow> media_recorder" where
  "mr_capture bs m =
     (if mr_state m = Recording then m\<lparr>mr_gathered := mr_gathered m @ bs\<rparr> else m)"

text \<open>
  The two object stores of the database \<^verbatim>\<open>AudioRecordingDB\<close>, both with key path
  \<^verbatim>\<open>id\<close>: an object store is a list of entries under distinct keys. The stored
  \<^verbatim>\<open>data\<close> of a recording entry is \<^verbatim>\<open>this.mainBlob\<close> as read when the entry is
  written, which may be \<^verbatim>\<open>null\<close>.
\<close>

record chunk_entry =
  ce_data :: blob
  ce_index :: nat
  ce_timestamp :: int
  ce_duration :: int

record recording_entry =
  re_data :: "blob option"
  re_timestamp :: int
  re_duration :: int

type_synonym 'e object_store = "(string \<times> 'e) list"

definition os_clear :: "'e object_store \<Rightarrow> 'e object_store" where
  "os_clear st = []"

definition os_put :: "string \<Rightarrow> 'e \<Rightarrow> 'e object_store \<Rightarrow> 'e object_store" where
  "os_put k e st = filter (\<lambda>p. fst p \<noteq> k) st @ [(k, e)]"

definition os_get :: "string \<Rightarrow> 'e object_store \<Rightarrow> 'e option" where
  "os_get k st = map_of st k"

text \<open>
  The durable store and the ways it can fail: \<^verbatim>\<open>indexedDB\<close> may be missing from the
  environment, \<^verbatim>\<open>indexedDB.open\<close> may throw or its request may fail, \<^verbatim>\<open>db.transaction\<close>
  may throw, and a request inside a transaction may fail. Version 0 stands for a
  database that has not been created yet; an object store that does not exist is
  \<open>None\<close>.
\<close>

record indexed_db =
  idb_present :: bool
  open_throws :: bool
  open_errors :: bool
  tx_throws :: bool
  request_fails :: bool
  db_version :: nat
  chunks_store :: "chunk_entry object_store option"
  recordings_store :: "recording_entry object_store option"

text \<open>
  The \<^verbatim>\<open>onupgradeneeded\<close> handler, the same at every \<^verbatim>\<open>open\<close> of the source: each
  of the two object stores is created unless it exists.
\<close>

definition create_stores :: "indexed_db \<Rightarrow> indexed_db" where
  "create_stores d =
     d\<lparr>chunks_store := (case chunks_store d of None \<Rightarrow> Some [] | Some st \<Rightarrow> Some st),
       recordings_store := (case recordings_store d of None \<Rightarrow> Some [] | Some st \<Rightarrow> Some st)\<rparr>"

text \<open>
  The outcome of an \<^verbatim>\<open>indexedDB.open(name, ver)\<close> request: \<^verbatim>\<open>onerror\<close>, or
  \<^verbatim>\<open>onsuccess\<close> after \<^verbatim>\<open>onupgradeneeded\<close> has run when the database is new or older than
  \<open>ver\<close>. Asking for a version below the stored one fails with a \<^verbatim>\<open>VersionError\<close>.
\<close>

datatype open_result = OpenError | OpenSuccess bool indexed_db

definition idb_open :: "indexed_db \<Rightarrow> nat \<Rightarrow> open_result" where
  "idb_open d ver =
     (if open_errors d then OpenError
      else if db_version d < ver then OpenSuccess True (create_stores (d\<lparr>db_version := ver\<rparr>))
      else if ver < db_version d then OpenError
      else OpenSuccess False d)"

section \<open>The recorder\<close>

text \<open>
  The fields of \<^verbatim>\<open>ChunkedRecorder\<close>, followed by the part of the platform its
  methods and handlers act on: the clock read by \<^verbatim>\<open>Date.now()\<close>, the event loop's
  task queue, the time-outs that are set and have neither fired nor been cleared, a
  counter for fresh handles, the streams whose tracks are live, the calls made to
  \<^verbatim>\<open>options.onChunkComplete\<close> in the current session, the database, what the
  environment answers to \<^verbatim>\<open>getUserMedia\<close> and \<^verbatim>\<open>MediaRecorder.isTypeSupported\<close>,
  and the content type the platform stamps on recorded blobs when the capture primitive
  is constructed with \<^verbatim>\<open>audio/webm\<close> and when it is constructed without options.
\<close>

record recorder =
  mediaRecorder :: "media_recorder option"
  stream :: "nat option"
  chunks :: "blob list"
  currentChunkIndex :: nat
  chunkStartTime :: int
  recordingStartTime :: int
  chunkTimer :: "nat option"
  audioChunks :: "blob list"
  isRecording :: bool
  mainBlob :: "blob option"
  mainAudioUrl :: "nat option"
  clock :: int
  tasks :: "task list"
  pending_timers :: "nat list"
  fresh :: nat
  live_streams :: "nat list"
  completed :: "(blob \<times> nat) list"
  idb :: indexed_db
  device_grant :: bool
  webm_supported :: bool
  webm_encoding :: string
  default_mime :: string

definition new_recorder ::
  "indexed_db \<Rightarrow> bool \<Rightarrow> bool \<Rightarrow> string \<Rightarrow> string \<Rightarrow> recorder" where
  "new_recorder d grant webm enc dflt =
     \<lparr>mediaRecorder = None, stream = None, chunks = [], currentChunkIndex = 0,
      chunkStartTime = 0, recordingStartTime = 0, chunkTimer = None, audioChunks = [],
      isRecording = False, mainBlob = None, mainAudioUrl = None,
      clock = 0, tasks = [], pending_timers = [], fresh = 1, live_streams = [],
      completed = [], idb = d, device_grant = grant, webm_supported = webm,
      webm_encoding = enc, default_mime = dflt\<rparr>"

subsection \<open>Persistence\<close>

text \<open>
  \<^verbatim>\<open>saveChunkToStorage\<close>: the call itself only issues the open request (an
  exception of \<^verbatim>\<open>indexedDB.open\<close> is caught and logged); the rest happens when the
  request completes.
\<close>

definition saveChunkToStorage :: "blob \<Rightarrow> recorder \<Rightarrow> recorder" where
  "saveChunkToStorage chunk s =
     (if \<not> idb_present (idb s) \<or> open_throws (idb s) then s
      else s\<lparr>tasks := tasks s @ [ChunkOpenRequest chunk]\<rparr>)"

text \<open>
  Completion of the open request of \<^verbatim>\<open>saveChunkToStorage\<close>. With the store missing,
  the database is reopened one version higher, which creates the stores, and the save is
  tried again. Otherwise the transaction clears the store and, from the
  \<^verbatim>\<open>onsuccess\<close> of the clear, puts the entry; the entry's fields are read from
  the recorder at that moment. IndexedDB runs the read-write transactions of a store
  one after the other, so the clear and the put are one step here.
\<close>

definition chunk_open_done :: "blob \<Rightarrow> recorder \<Rightarrow> recorder" where
  "chunk_open_done chunk s =
     (case idb_open (idb s) 1 of
        OpenError \<Rightarrow> s
      | OpenSuccess up d \<Rightarrow>
          (case chunks_store d of
             None \<Rightarrow>
               saveChunkToStorage chunk
                 (s\<lparr>idb := create_stores (d\<lparr>db_version := db_version d + 1\<rparr>)\<rparr>)
           | Some st \<Rightarrow>
               if tx_throws d then s\<lparr>idb := d\<rparr>
               else if request_fails d then s\<lparr>idb := d\<rparr>
               else s\<lparr>idb := d\<lparr>chunks_store := Some
                      (os_put ''latest_chunk''
                         \<lparr>ce_data = chunk, ce_index = currentChunkIndex s,
                          ce_timestamp = clock s,
                          ce_duration =
                            (if isRecording s then clock s - recordingStartTime s else 0)\<rparr>
                         (os_clear st))\<rparr>\<rparr>))"

definition saveCompleteRecordingToStorage :: "recorder \<Rightarrow> recorder" where
  "saveCompleteRecordingToStorage s =
     (if mainBlob s = None then s
      else if \<not> idb_present (idb s) \<or> open_throws (idb s) then s
      else s\<lparr>tasks := tasks s @ [RecordingOpenRequest]\<rparr>)"

definition recording_open_done :: "recorder \<Rightarrow> recorder" where
  "recording_open_done s =
     (case idb_open (idb s) 1 of
        OpenError \<Rightarrow> s
      | OpenSuccess up d \<Rightarrow>
          (case recordings_store d of
             None \<Rightarrow>
               saveCompleteRecordingToStorage
                 (s\<lparr>idb := create_stores (d\<lparr>db_version := db_version d + 1\<rparr>)\<rparr>)
           | Some st \<Rightarrow>
               if tx_throws d then s\<lparr>idb := d\<rparr>
               else if request_fails d then s\<lparr>idb := d\<rparr>
               else s\<lparr>idb := d\<lparr>recordings_store := Some
                      (os_put ''latest_recording''
                         \<lparr>re_data = mainBlob s, re_timestamp = clock s,
                          re_duration =
                            (if recordingStartTime s \<noteq> 0
                             then clock s - recordingStartTime s else 0)\<rparr>
                         (os_clear st))\<rparr>\<rparr>))"

text \<open>
  \<^verbatim>\<open>checkForRecovery\<close> returns a promise; the model returns how the promise is
  settled, and the database as the open request leaves it. Every handler and every
  \<^verbatim>\<open>catch\<close> of the source calls \<^verbatim>\<open>resolve\<close>. When \<^verbatim>\<open>onupgradeneeded\<close> runs
  it resolves first, with no recovery. The test \<^verbatim>\<open>recording && recording.data\<close> asks
  whether the entry and its data are there: a \<^verbatim>\<open>Blob\<close> is an object, and truthy
  whatever its size.
\<close>

datatype 'a promise = Resolved 'a | Rejected error

record recovery =
  hasRecovery :: bool
  recording :: "blob option"

definition no_recovery :: recovery where
  "no_recovery = \<lparr>hasRecovery = False, recording = None\<rparr>"

definition checkForRecovery :: "indexed_db \<Rightarrow> indexed_db \<times> recovery promise" where
  "checkForRecovery d =
     (if \<not> idb_present d then (d, Resolved no_recovery)
      else if open_throws d then (d, Resolved no_recovery)
      else case idb_open d 1 of
        OpenError \<Rightarrow> (d, Resolved no_recovery)
      | OpenSuccess up d' \<Rightarrow>
          if up then (d', Resolved no_recovery)
          else (case recordings_store d' of
             None \<Rightarrow> (d', Resolved no_recovery)
           | Some st \<Rightarrow>
               if tx_throws d' then (d', Resolved no_recovery)
               else if request_fails d' then (d', Resolved no_recovery)
               else (case os_get ''latest_recording'' st of
                  None \<Rightarrow> (d', Resolved no_recovery)
                | Some e \<Rightarrow>
                    (case re_data e of
                       None \<Rightarrow> (d', Resolved no_recovery)
                     | Some b \<Rightarrow>
                         (d', Resolved \<lparr>hasRecovery = True, recording = Some b\<rparr>)))))"

text \<open>
  \<^verbatim>\<open>clearStoredRecordings\<close>, in the same way. Each store is cleared in a
  transaction of its own, inside its own \<^verbatim>\<open>try\<close>.
\<close>

definition clear_chunks :: "indexed_db \<Rightarrow> indexed_db" where
  "clear_chunks d =
     (case chunks_store d of
        None \<Rightarrow> d
      | Some st \<Rightarrow>
          if tx_throws d then d
          else if request_fails d then d
          else d\<lparr>chunks_store := Some (os_clear st)\<rparr>)"

definition clear_recordings :: "indexed_db \<Rightarrow> indexed_db" where
  "clear_recordings d =
     (case recordings_store d of
        None \<Rightarrow> d
      | Some st \<Rightarrow>
          if tx_throws d then d
          else if request_fails d then d
          else d\<lparr>recordings_store := Some (os_clear st)\<rparr>)"

definition clearStoredRecordings :: "indexed_db \<Rightarrow> indexed_db \<times> unit promise" where
  "clearStoredRecordings d =
     (if \<not> idb_present d then (d, Resolved ())
      else if open_throws d then (d, Resolved ())
      else case idb_open d 1 of
        OpenError \<Rightarrow> (d, Resolved ())
      | OpenSuccess up d' \<Rightarrow>
          if up then (d', Resolved ())
          else if chunks_store d' = None \<and> recordings_store d' = None then (d', Resolved ())
          else (clear_recordings (clear_chunks d'), Resolved ()))"

subsection \<open>Rotation timer and chunk completion\<close>

definition clearChunkTimer :: "recorder \<Rightarrow> recorder" where
  "clearChunkTimer s =
     (case chunkTimer s of
        None \<Rightarrow> s
      | Some t \<Rightarrow> s\<lparr>pending_timers := removeAll t (pending_timers s), chunkTimer := None\<rparr>)"

text \<open>
  \<^verbatim>\<open>completeCurrentChunk\<close> builds the chunk from \<^verbatim>\<open>this.audioChunks\<close>, which it
  leaves as it is.
\<close>

definition completeCurrentChunk :: "recorder \<Rightarrow> recorder" where
  "completeCurrentChunk s =
     (if audioChunks s = [] then s
      else s\<lparr>chunks := chunks s @ [new_Blob (audioChunks s) ''audio/wav''],
             completed := completed s @
               [(new_Blob (audioChunks s) ''audio/wav'', currentChunkIndex s)],
             currentChunkIndex := currentChunkIndex s + 1\<rparr>)"

text \<open>
  \<^verbatim>\<open>startChunkTimer\<close> sets the time-out; \<open>timer_callback\<close> is the function it
  passes to \<^verbatim>\<open>setTimeout\<close>. An exception of \<^verbatim>\<open>MediaRecorder.start\<close> in the
  callback would end it there.
\<close>

definition startChunkTimer :: "recorder \<Rightarrow> recorder" where
  "startChunkTimer s =
     (clearChunkTimer s)
       \<lparr>chunkTimer := Some (fresh s),
        pending_timers := pending_timers (clearChunkTimer s) @ [fresh s],
        fresh := fresh s + 1\<rparr>"

definition timer_callback :: "recorder \<Rightarrow> recorder" where
  "timer_callback s0 =
     (let s = completeCurrentChunk s0 in
      case mediaRecorder s of
        None \<Rightarrow> s
      | Some m \<Rightarrow>
          if \<not> isRecording s then s
          else (case mr_start (fst (mr_stop m)) of
             Inl e \<Rightarrow>
               s\<lparr>mediaRecorder := Some (fst (mr_stop m)),
                 tasks := tasks s @ snd (mr_stop m), chunkStartTime := clock s\<rparr>
           | Inr m' \<Rightarrow>
               startChunkTimer
                 (s\<lparr>mediaRecorder := Some m',
                   tasks := tasks s @ snd (mr_stop m), chunkStartTime := clock s\<rparr>)))"

subsection \<open>MediaRecorder event handlers\<close>

definition ondataavailable :: "blob \<Rightarrow> recorder \<Rightarrow> recorder" where
  "ondataavailable d s =
     (if blob_size d > 0 then saveChunkToStorage d (s\<lparr>audioChunks := audioChunks s @ [d]\<rparr>)
      else s)"

definition onstop :: "recorder \<Rightarrow> recorder" where
  "onstop s =
     saveCompleteRecordingToStorage
       (s\<lparr>mainBlob := Some (new_Blob (audioChunks s) ''audio/wav''),
          mainAudioUrl := Some (fresh s), fresh := fresh s + 1\<rparr>)"

subsection \<open>Public methods\<close>

text \<open>
  A method returns the recorder it leaves and either its return value or the exception
  it throws; a method that throws leaves the assignments made before the throw.
  \<^verbatim>\<open>initialize\<close> acquires a new stream and makes a new capture primitive on it,
  in place of the ones the recorder had. The log of completion calls is that of the
  session: it is emptied where the chunks are, in \<^verbatim>\<open>start\<close> and \<^verbatim>\<open>cleanup\<close>.
\<close>

definition initialize :: "recorder \<Rightarrow> recorder \<times> (error + unit)" where
  "initialize s =
     (if \<not> device_grant s then (s, Inl DeviceUnavailable)
      else (s\<lparr>stream := Some (fresh s), live_streams := live_streams s @ [fresh s],
              fresh := fresh s + 1,
              mediaRecorder := Some
                \<lparr>mr_state = Inactive,
                 mr_mimeType = (if webm_supported s then ''audio/webm'' else []),
                 mr_encoding = (if webm_supported s then webm_encoding s else default_mime s),
                 mr_gathered = []\<rparr>\<rparr>,
            Inr ()))"

definition start :: "recorder \<Rightarrow> recorder \<times> (error + unit)" where
  "start s =
     (case mediaRecorder s of
        None \<Rightarrow> (s, Inl NotInitialized)
      | Some m \<Rightarrow>
          (case mr_start m of
             Inl e \<Rightarrow>
               (s\<lparr>chunks := [], audioChunks := [], completed := [], currentChunkIndex := 0,
                  recordingStartTime := clock s, chunkStartTime := clock s,
                  isRecording := True\<rparr>, Inl e)
           | Inr m' \<Rightarrow>
               (startChunkTimer
                  (s\<lparr>chunks := [], audioChunks := [], completed := [], currentChunkIndex := 0,
                     recordingStartTime := clock s, chunkStartTime := clock s,
                     isRecording := True, mediaRecorder := Some m'\<rparr>), Inr ())))"

definition stop :: "recorder \<Rightarrow> recorder \<times> blob option" where
  "stop s =
     (case mediaRecorder s of
        None \<Rightarrow> (s, None)
      | Some m \<Rightarrow>
          if \<not> isRecording s then (s, None)
          else (let s' = completeCurrentChunk
                  ((clearChunkTimer s)
                     \<lparr>mediaRecorder := Some (fst (mr_stop m)),
                      tasks := tasks s @ snd (mr_stop m), isRecording := False\<rparr>)
                in (s', mainBlob s')))"

definition pause :: "recorder \<Rightarrow> recorder" where
  "pause s =
     (case mediaRecorder s of
        None \<Rightarrow> s
      | Some m \<Rightarrow>
          if \<not> isRecording s then s
          else completeCurrentChunk
                 ((clearChunkTimer s)
                    \<lparr>mediaRecorder := Some (fst (mr_stop m)),
                     tasks := tasks s @ snd (mr_stop m)\<rparr>))"

definition resume :: "recorder \<Rightarrow> recorder \<times> (error + unit)" where
  "resume s =
     (case mediaRecorder s of
        None \<Rightarrow> (s, Inr ())
      | Some m \<Rightarrow>
          if isRecording s then (s, Inr ())
          else (case mr_start m of
             Inl e \<Rightarrow> (s\<lparr>chunkStartTime := clock s\<rparr>, Inl e)
           | Inr m' \<Rightarrow>
               (startChunkTimer (s\<lparr>chunkStartTime := clock s, mediaRecorder := Some m'\<rparr>),
                Inr ())))"

text \<open>
  \<^verbatim>\<open>cleanup\<close>, which the hook's \<^verbatim>\<open>resetRecording\<close> calls. Stopping the tracks of
  the stream ends a capture leg that is still running: the capture primitive becomes
  inactive and its two events are queued. Nothing here touches the database.
\<close>

definition stop_tracks :: "recorder \<Rightarrow> recorder" where
  "stop_tracks s =
     (case stream s of
        None \<Rightarrow> s
      | Some i \<Rightarrow>
          s\<lparr>live_streams := removeAll i (live_streams s), stream := None,
            mediaRecorder := map_option (\<lambda>m. fst (mr_stop m)) (mediaRecorder s),
            tasks := tasks s @
              (case mediaRecorder s of None \<Rightarrow> [] | Some m \<Rightarrow> snd (mr_stop m))\<rparr>)"

definition cleanup :: "recorder \<Rightarrow> recorder" where
  "cleanup s =
     (stop_tracks (clearChunkTimer (if isRecording s then fst (stop s) else s)))
       \<lparr>mainAudioUrl := None, mediaRecorder := None, chunks := [], audioChunks := [],
        completed := [], currentChunkIndex := 0, isRecording := False, mainBlob := None\<rparr>"

section \<open>Runs\<close>

text \<open>
  What can happen to a recorder: a call of one of its methods by the application, the
  microphone delivering bytes to a running capture leg, the rotation time-out firing, the
  event loop running its next task, and time passing.
\<close>

datatype event =
    Initialize | Start | Stop | Pause | Resume | Cleanup
  | Capture "byte list" | TimerFire | Deliver | Tick nat

definition run_task :: "task \<Rightarrow> recorder \<Rightarrow> recorder" where
  "run_task t s =
     (case t of
        DataAvailable d \<Rightarrow> ondataavailable d s
      | StopEvent \<Rightarrow> onstop s
      | ChunkOpenRequest c \<Rightarrow> chunk_open_done c s
      | RecordingOpenRequest \<Rightarrow> recording_open_done s)"

definition step :: "event \<Rightarrow> recorder \<Rightarrow> recorder" where
  "step e s =
     (case e of
        Initialize \<Rightarrow> fst (initialize s)
      | Start \<Rightarrow> fst (start s)
      | Stop \<Rightarrow> fst (stop s)
      | Pause \<Rightarrow> pause s
      | Resume \<Rightarrow> fst (resume s)
      | Cleanup \<Rightarrow> cleanup s
      | Capture bs \<Rightarrow>
          (case mediaRecorder s of
             None \<Rightarrow> s
           | Some m \<Rightarrow> s\<lparr>mediaRecorder := Some (mr_capture bs m)\<rparr>)
      | TimerFire \<Rightarrow>
          (case pending_timers s of
             [] \<Rightarrow> s
           | t # ts \<Rightarrow> timer_callback (s\<lparr>pending_timers := ts\<rparr>))
      | Deliver \<Rightarrow>
          (case tasks s of
             [] \<Rightarrow> s
           | t # ts \<Rightarrow> run_task t (s\<lparr>tasks := ts\<rparr>))
      | Tick n \<Rightarrow> s\<lparr>clock := clock s + int n\<rparr>)"

fun run :: "event list \<Rightarrow> recorder \<Rightarrow> recorder" where
  "run [] s = s"
| "run (e # es) s = run es (step e s)"

section \<open>Predicates and sample states used in the statements\<close>

text \<open>A store none of whose operations fails.\<close>

definition healthy :: "indexed_db \<Rightarrow> bool" where
  "healthy d \<longleftrightarrow>
     idb_present d \<and> \<not> open_throws d \<and> \<not> open_errors d \<and> \<not> tx_throws d \<and> \<not> request_fails d"

text \<open>
  The recorder without what belongs to persistence: the database, and the open
  requests of the save operations that wait in the task queue.
\<close>

definition blank_db :: indexed_db where
  "blank_db =
     \<lparr>idb_present = False, open_throws = False, open_errors = False, tx_throws = False,
      request_fails = False, db_version = 0, chunks_store = None, recordings_store = None\<rparr>"

fun is_media_event :: "task \<Rightarrow> bool" where
  "is_media_event (DataAvailable d) = True"
| "is_media_event StopEvent = True"
| "is_media_event (ChunkOpenRequest c) = False"
| "is_media_event RecordingOpenRequest = False"

definition forget_store :: "recorder \<Rightarrow> recorder" where
  "forget_store s = s\<lparr>idb := blank_db, tasks := filter is_media_event (tasks s)\<rparr>"

text \<open>
  Within a session the index counter is the number of chunks, and the calls of the
  completion callback have passed the chunks with the indices \<open>0, 1, 2, \<dots>\<close> in order.
\<close>

definition session_inv :: "recorder \<Rightarrow> bool" where
  "session_inv s \<longleftrightarrow>
     currentChunkIndex s = length (chunks s) \<and>
     map fst (completed s) = chunks s \<and>
     map snd (completed s) = [0..<length (chunks s)]"

text \<open>The fragments kept in the buffer are the non-empty ones, and no chunk is empty.\<close>

definition fragments_nonempty :: "recorder \<Rightarrow> bool" where
  "fragments_nonempty s \<longleftrightarrow> list_all (\<lambda>f. blob_bytes f \<noteq> []) (audioChunks s)"

definition chunks_nonempty :: "recorder \<Rightarrow> bool" where
  "chunks_nonempty s \<longleftrightarrow> list_all (\<lambda>c. blob_bytes c \<noteq> []) (chunks s)"

text \<open>
  The content types in a recorder: the capture primitive is constructed with the option
  \<^verbatim>\<open>audio/webm\<close> where that is supported and without options otherwise; the
  fragments, delivered and waiting, have the type the platform stamps on them; the
  chunks and the full recording are declared as \<^verbatim>\<open>audio/wav\<close>.
\<close>

fun task_typed :: "string \<Rightarrow> task \<Rightarrow> bool" where
  "task_typed enc (DataAvailable d) = (blob_type d = enc)"
| "task_typed enc StopEvent = True"
| "task_typed enc (ChunkOpenRequest c) = True"
| "task_typed enc RecordingOpenRequest = True"

definition configured :: "recorder \<Rightarrow> string" where
  "configured s = (if webm_supported s then ''audio/webm'' else [])"

definition encoding :: "recorder \<Rightarrow> string" where
  "encoding s = (if webm_supported s then webm_encoding s else default_mime s)"

definition types_inv :: "recorder \<Rightarrow> bool" where
  "types_inv s \<longleftrightarrow>
     list_all (\<lambda>c. blob_type c = ''audio/wav'') (chunks s) \<and>
     map_option blob_type (mainBlob s) \<in> {None, Some ''audio/wav''} \<and>
     map_option mr_mimeType (mediaRecorder s) \<in> {None, Some (configured s)} \<and>
     map_option mr_encoding (mediaRecorder s) \<in> {None, Some (encoding s)} \<and>
     list_all (\<lambda>f. blob_type f = encoding s) (audioChunks s) \<and>
     list_all (task_typed (encoding s)) (tasks s)"

text \<open>
  Every chunk is a beginning of what the buffer holds: its bytes are the first bytes of
  the concatenated fragments.
\<close>

definition chunks_cumulative :: "recorder \<Rightarrow> bool" where
  "chunks_cumulative s \<longleftrightarrow>
     list_all
       (\<lambda>c. take (length (blob_bytes c)) (concat (map blob_bytes (audioChunks s))) = blob_bytes c)
       (chunks s)"

text \<open>
  Sample states: a browser with a working store that has not been created yet, a
  microphone that is granted and support for \<^verbatim>\<open>audio/webm\<close>, stamped as such on the
  recorded blobs; a session in which
  the rotation timer has fired twice, each time after one byte was captured, with every
  queued task run in between; and the same session stopped, with nothing left to run.
\<close>

definition healthy_db :: indexed_db where
  "healthy_db =
     \<lparr>idb_present = True, open_throws = False, open_errors = False, tx_throws = False,
      request_fails = False, db_version = 0, chunks_store = None, recordings_store = None\<rparr>"

definition demo_recorder :: recorder where
  "demo_recorder = new_recorder healthy_db True True ''audio/webm'' ''audio/ogg''"

definition demo_events :: "event list" where
  "demo_events =
     [Initialize, Start,
      Capture [1], TimerFire, Deliver, Deliver, Deliver, Deliver,
      Capture [2], TimerFire, Deliver, Deliver, Deliver, Deliver,
      Capture [3]]"

definition demo_recording :: recorder where
  "demo_recording = run demo_events demo_recorder"

definition demo_stopped :: recorder where
  "demo_stopped = run [Stop, Deliver, Deliver, Deliver, Deliver] demo_recording"

text \<open>
  The sample session again on two other platforms: one where \<^verbatim>\<open>audio/webm\<close> is
  supported and recorded blobs are stamped \<^verbatim>\<open>audio/webm;codecs=opus\<close>, as Chromium
  does; and one where \<^verbatim>\<open>audio/webm\<close> is not supported and a capture primitive
  constructed without options records \<^verbatim>\<open>audio/wav\<close>.
\<close>

definition chromium_recording :: recorder where
  "chromium_recording =
     run demo_events (new_recorder healthy_db True True ''audio/webm;codecs=opus'' [])"

definition wav_platform_recording :: recorder where
  "wav_platform_recording =
     run demo_events (new_recorder healthy_db True False ''audio/webm'' ''audio/wav'')"

section \<open>Unfolding rules and the sample states evaluated\<close>

lemmas method_defs = step_def run_task_def initialize_def start_def stop_def pause_def resume_def
  cleanup_def stop_tracks_def timer_callback_def startChunkTimer_def clearChunkTimer_def
  completeCurrentChunk_def ondataavailable_def onstop_def saveChunkToStorage_def
  saveCompleteRecordingToStorage_def chunk_open_done_def recording_open_done_def
  mr_start_def mr_stop_def mr_capture_def idb_open_def create_stores_def os_put_def os_clear_def
  os_get_def new_Blob_def blob_size_def

lemmas demo_defs = demo_recorder_def new_recorder_def healthy_db_def

lemma demo_recording_eval: "demo_recording = \<lparr>mediaRecorder =
    Some \<lparr>mr_state = Recording, mr_mimeType = ''audio/webm'', mr_encoding = ''audio/webm'',
      mr_gathered = [3]\<rparr>,
    stream = Some 1,
    chunks = [\<lparr>blob_bytes = [1], blob_type = ''audio/wav''\<rparr>],
    currentChunkIndex = 1, chunkStartTime = 0, recordingStartTime = 0,
    chunkTimer = Some 5,
    audioChunks =
      [\<lparr>blob_bytes = [1], blob_type = ''audio/webm''\<rparr>,
       \<lparr>blob_bytes = [2], blob_type = ''audio/webm''\<rparr>],
    isRecording = True,
    mainBlob = Some \<lparr>blob_bytes = [1, 2], blob_type = ''audio/wav''\<rparr>,
    mainAudioUrl = Some 6, clock = 0, tasks = [], pending_timers = [5],
    fresh = 7, live_streams = [1],
    completed = [(\<lparr>blob_bytes = [1], blob_type = ''audio/wav''\<rparr>, 0)],
    idb =
      \<lparr>idb_present = True, open_throws = False, open_errors = False,
         tx_throws = False, request_fails = False, db_version = 1,
         chunks_store =
           Some
            [(''latest_chunk'',
              \<lparr>ce_data = \<lparr>blob_bytes = [2], blob_type = ''audio/webm''\<rparr>,
                 ce_index = 1, ce_timestamp = 0, ce_duration = 0\<rparr>)],
         recordings_store =
           Some
            [(''latest_recording'',
              \<lparr>re_data =
                 Some \<lparr>blob_bytes = [1, 2], blob_type = ''audio/wav''\<rparr>,
                 re_timestamp = 0, re_duration = 0\<rparr>)]\<rparr>,
    device_grant = True, webm_supported = True, webm_encoding = ''audio/webm'',
    default_mime = ''audio/ogg''\<rparr>"
  by (simp add: demo_recording_def demo_events_def demo_defs method_defs)

lemma idb_demo_stopped:
  "idb demo_stopped = \<lparr>idb_present = True, open_throws = False, open_errors = False,
     tx_throws = False, request_fails = False, db_version = 1,
     chunks_store = Some [(''latest_chunk'',
        \<lparr>ce_data = \<lparr>blob_bytes = [3], blob_type = ''audio/webm''\<rparr>,
         ce_index = 2, ce_timestamp = 0, ce_duration = 0\<rparr>)],
     recordings_store = Some [(''latest_recording'',
        \<lparr>re_data = Some \<lparr>blob_bytes = [1, 2, 3], blob_type = ''audio/wav''\<rparr>,
         re_timestamp = 0, re_duration = 0\<rparr>)]\<rparr>"
  by (simp add: demo_stopped_def demo_recording_eval method_defs)

lemma cleanup_idb: "idb (cleanup s) = idb s"
  by (auto simp: cleanup_def stop_tracks_def stop_def completeCurrentChunk_def clearChunkTimer_def
      split: option.splits)

section \<open>What each function leaves alone\<close>

lemma clearChunkTimer_frame [simp]:
  "chunks (clearChunkTimer s) = chunks s"
  "completed (clearChunkTimer s) = completed s"
  "currentChunkIndex (clearChunkTimer s) = currentChunkIndex s"
  "audioChunks (clearChunkTimer s) = audioChunks s"
  "mainBlob (clearChunkTimer s) = mainBlob s"
  "mediaRecorder (clearChunkTimer s) = mediaRecorder s"
  "tasks (clearChunkTimer s) = tasks s"
  "isRecording (clearChunkTimer s) = isRecording s"
  "idb (clearChunkTimer s) = idb s"
  "stream (clearChunkTimer s) = stream s"
  "webm_supported (clearChunkTimer s) = webm_supported s"
  "default_mime (clearChunkTimer s) = default_mime s"
  by (simp_all add: clearChunkTimer_def split: option.splits)

lemma startChunkTimer_frame [simp]:
  "chunks (startChunkTimer s) = chunks s"
  "completed (startChunkTimer s) = completed s"
  "currentChunkIndex (startChunkTimer s) = currentChunkIndex s"
  "audioChunks (startChunkTimer s) = audioChunks s"
  "mainBlob (startChunkTimer s) = mainBlob s"
  "mediaRecorder (startChunkTimer s) = mediaRecorder s"
  "tasks (startChunkTimer s) = tasks s"
  "isRecording (startChunkTimer s) = isRecording s"
  "idb (startChunkTimer s) = idb s"
  "stream (startChunkTimer s) = stream s"
  "webm_supported (startChunkTimer s) = webm_supported s"
  "default_mime (startChunkTimer s) = default_mime s"
  by (simp_all add: startChunkTimer_def)

lemma completeCurrentChunk_frame [simp]:
  "audioChunks (completeCurrentChunk s) = audioChunks s"
  "mainBlob (completeCurrentChunk s) = mainBlob s"
  "mediaRecorder (completeCurrentChunk s) = mediaRecorder s"
  "tasks (completeCurrentChunk s) = tasks s"
  "isRecording (completeCurrentChunk s) = isRecording s"
  "idb (completeCurrentChunk s) = idb s"
  "stream (completeCurrentChunk s) = stream s"
  "clock (completeCurrentChunk s) = clock s"
  "webm_supported (completeCurrentChunk s) = webm_supported s"
  "default_mime (completeCurrentChunk s) = default_mime s"
  by (simp_all add: completeCurrentChunk_def)

lemma saveChunkToStorage_frame [simp]:
  "chunks (saveChunkToStorage c s) = chunks s"
  "completed (saveChunkToStorage c s) = completed s"
  "currentChunkIndex (saveChunkToStorage c s) = currentChunkIndex s"
  "audioChunks (saveChunkToStorage c s) = audioChunks s"
  "mainBlob (saveChunkToStorage c s) = mainBlob s"
  "mediaRecorder (saveChunkToStorage c s) = mediaRecorder s"
  "webm_supported (saveChunkToStorage c s) = webm_supported s"
  "default_mime (saveChunkToStorage c s) = default_mime s"
  "list_all (task_typed enc) (tasks (saveChunkToStorage c s)) = list_all (task_typed enc) (tasks s)"
  by (simp_all add: saveChunkToStorage_def)

lemma saveCompleteRecordingToStorage_frame [simp]:
  "chunks (saveCompleteRecordingToStorage s) = chunks s"
  "completed (saveCompleteRecordingToStorage s) = completed s"
  "currentChunkIndex (saveCompleteRecordingToStorage s) = currentChunkIndex s"
  "audioChunks (saveCompleteRecordingToStorage s) = audioChunks s"
  "mainBlob (saveCompleteRecordingToStorage s) = mainBlob s"
  "mediaRecorder (saveCompleteRecordingToStorage s) = mediaRecorder s"
  "webm_supported (saveCompleteRecordingToStorage s) = webm_supported s"
  "default_mime (saveCompleteRecordingToStorage s) = default_mime s"
  "list_all (task_typed enc) (tasks (saveCompleteRecordingToStorage s)) =
     list_all (task_typed enc) (tasks s)"
  by (simp_all add: saveCompleteRecordingToStorage_def)

lemma chunk_open_done_frame [simp]:
  "chunks (chunk_open_done c s) = chunks s"
  "completed (chunk_open_done c s) = completed s"
  "currentChunkIndex (chunk_open_done c s) = currentChunkIndex s"
  "audioChunks (chunk_open_done c s) = audioChunks s"
  "mainBlob (chunk_open_done c s) = mainBlob s"
  "mediaRecorder (chunk_open_done c s) = mediaRecorder s"
  "webm_supported (chunk_open_done c s) = webm_supported s"
  "default_mime (chunk_open_done c s) = default_mime s"
  "list_all (task_typed enc) (tasks (chunk_open_done c s)) = list_all (task_typed enc) (tasks s)"
  by (simp_all add: chunk_open_done_def split: open_result.splits option.splits)

lemma recording_open_done_frame [simp]:
  "chunks (recording_open_done s) = chunks s"
  "completed (recording_open_done s) = completed s"
  "currentChunkIndex (recording_open_done s) = currentChunkIndex s"
  "audioChunks (recording_open_done s) = audioChunks s"
  "mainBlob (recording_open_done s) = mainBlob s"
  "mediaRecorder (recording_open_done s) = mediaRecorder s"
  "webm_supported (recording_open_done s) = webm_supported s"
  "default_mime (recording_open_done s) = default_mime s"
  "list_all (task_typed enc) (tasks (recording_open_done s)) = list_all (task_typed enc) (tasks s)"
  by (simp_all add: recording_open_done_def split: open_result.splits option.splits)

section \<open>The index counter along a run\<close>

lemma completeCurrentChunk_session_inv:
  "session_inv s \<Longrightarrow> session_inv (completeCurrentChunk s)"
  by (simp add: session_inv_def completeCurrentChunk_def)

lemma completeCurrentChunk_session_inv':
  "chunks t = chunks s \<Longrightarrow> completed t = completed s \<Longrightarrow>
   currentChunkIndex t = currentChunkIndex s \<Longrightarrow> session_inv s \<Longrightarrow>
   session_inv (completeCurrentChunk t)"
  by (simp add: session_inv_def completeCurrentChunk_def)

lemma stop_session_inv:
  assumes "session_inv s"
  shows "session_inv (fst (stop s))"
proof -
  have "session_inv (completeCurrentChunk t)"
    if "chunks t = chunks s" "completed t = completed s"
       "currentChunkIndex t = currentChunkIndex s" for t
    using that assms by (rule completeCurrentChunk_session_inv')
  then show ?thesis
    using assms by (simp add: stop_def Let_def split: option.splits)
qed

lemma pause_session_inv:
  assumes "session_inv s"
  shows "session_inv (pause s)"
proof -
  have "session_inv (completeCurrentChunk t)"
    if "chunks t = chunks s" "completed t = completed s"
       "currentChunkIndex t = currentChunkIndex s" for t
    using that assms by (rule completeCurrentChunk_session_inv')
  then show ?thesis
    using assms by (simp add: pause_def split: option.splits)
qed

lemma timer_callback_session_inv: "session_inv s \<Longrightarrow> session_inv (timer_callback s)"
  using completeCurrentChunk_session_inv [of s]
  by (auto simp: timer_callback_def Let_def session_inv_def split: option.splits sum.splits)

lemma step_session_inv: "session_inv s \<Longrightarrow> session_inv (step e s)"
proof (cases e)
  case Stop then show "session_inv s \<Longrightarrow> ?thesis" by (simp add: step_def stop_session_inv)
next
  case Pause then show "session_inv s \<Longrightarrow> ?thesis" by (simp add: step_def pause_session_inv)
next
  case TimerFire
  show "session_inv s \<Longrightarrow> ?thesis"
  proof (cases "pending_timers s")
    case Nil with TimerFire show "session_inv s \<Longrightarrow> ?thesis" by (simp add: step_def)
  next
    case (Cons t ts)
    assume "session_inv s"
    then have "session_inv (s\<lparr>pending_timers := ts\<rparr>)" by (simp add: session_inv_def)
    with TimerFire Cons show ?thesis by (simp add: step_def timer_callback_session_inv)
  qed
next
  case Deliver
  then show "session_inv s \<Longrightarrow> ?thesis"
    by (auto simp: step_def run_task_def session_inv_def ondataavailable_def onstop_def
        split: list.splits task.splits)
qed (auto simp: step_def session_inv_def initialize_def start_def resume_def cleanup_def
       split: option.splits sum.splits)

lemma run_session_inv: "session_inv s \<Longrightarrow> session_inv (run es s)"
  by (induction es arbitrary: s) (simp_all add: step_session_inv)

section \<open>Chunks and fragments along a run\<close>

lemma completeCurrentChunk_nonempty:
  "chunks t = chunks s \<Longrightarrow> audioChunks t = audioChunks s \<Longrightarrow>
   fragments_nonempty s \<Longrightarrow> chunks_nonempty s \<Longrightarrow>
   fragments_nonempty (completeCurrentChunk t) \<and> chunks_nonempty (completeCurrentChunk t)"
  by (cases "audioChunks s")
     (auto simp: fragments_nonempty_def chunks_nonempty_def completeCurrentChunk_def new_Blob_def)

lemma stop_nonempty:
  assumes "fragments_nonempty s" "chunks_nonempty s"
  shows "fragments_nonempty (fst (stop s)) \<and> chunks_nonempty (fst (stop s))"
proof -
  have "fragments_nonempty (completeCurrentChunk t) \<and> chunks_nonempty (completeCurrentChunk t)"
    if "chunks t = chunks s" "audioChunks t = audioChunks s" for t
    using that assms by (rule completeCurrentChunk_nonempty)
  then show ?thesis
    using assms by (simp add: stop_def Let_def split: option.splits)
qed

lemma pause_nonempty:
  assumes "fragments_nonempty s" "chunks_nonempty s"
  shows "fragments_nonempty (pause s) \<and> chunks_nonempty (pause s)"
proof -
  have "fragments_nonempty (completeCurrentChunk t) \<and> chunks_nonempty (completeCurrentChunk t)"
    if "chunks t = chunks s" "audioChunks t = audioChunks s" for t
    using that assms by (rule completeCurrentChunk_nonempty)
  then show ?thesis
    using assms by (simp add: pause_def split: option.splits)
qed

lemma timer_callback_chunks:
  "chunks (timer_callback s) = chunks (completeCurrentChunk s)"
  "audioChunks (timer_callback s) = audioChunks s"
  "completed (timer_callback s) = completed (completeCurrentChunk s)"
  "currentChunkIndex (timer_callback s) = currentChunkIndex (completeCurrentChunk s)"
  by (simp_all add: timer_callback_def Let_def split: option.splits sum.splits)

lemma timer_callback_nonempty:
  assumes "fragments_nonempty s" "chunks_nonempty s"
  shows "fragments_nonempty (timer_callback s) \<and> chunks_nonempty (timer_callback s)"
proof -
  have "fragments_nonempty (completeCurrentChunk s) \<and> chunks_nonempty (completeCurrentChunk s)"
    using assms by (intro completeCurrentChunk_nonempty [of s s]) simp_all
  then show ?thesis
    by (simp add: fragments_nonempty_def chunks_nonempty_def timer_callback_chunks)
qed

lemma step_nonempty:
  assumes "fragments_nonempty s" "chunks_nonempty s"
  shows "fragments_nonempty (step e s) \<and> chunks_nonempty (step e s)"
proof (cases e)
  case Stop with assms show ?thesis by (simp add: step_def stop_nonempty)
next
  case Pause with assms show ?thesis by (simp add: step_def pause_nonempty)
next
  case TimerFire
  show ?thesis
  proof (cases "pending_timers s")
    case Nil with TimerFire assms show ?thesis by (simp add: step_def)
  next
    case (Cons t ts)
    from assms have "fragments_nonempty (s\<lparr>pending_timers := ts\<rparr>)"
      "chunks_nonempty (s\<lparr>pending_timers := ts\<rparr>)"
      by (simp_all add: fragments_nonempty_def chunks_nonempty_def)
    with TimerFire Cons show ?thesis by (simp add: step_def timer_callback_nonempty)
  qed
next
  case Deliver
  with assms show ?thesis
    by (auto simp: step_def run_task_def fragments_nonempty_def chunks_nonempty_def
        ondataavailable_def onstop_def blob_size_def split: list.splits task.splits)
qed (use assms in \<open>auto simp: step_def fragments_nonempty_def chunks_nonempty_def
       initialize_def start_def resume_def cleanup_def split: option.splits sum.splits\<close>)

lemma run_nonempty:
  "fragments_nonempty s \<Longrightarrow> chunks_nonempty s \<Longrightarrow>
   fragments_nonempty (run es s) \<and> chunks_nonempty (run es s)"
  by (induction es arbitrary: s) (simp_all add: step_nonempty)

lemma take_prefix_append:
  "take (length c) buf = c \<Longrightarrow> take (length c) (buf @ ys) = c"
proof -
  assume h: "take (length c) buf = c"
  then have "length (take (length c) buf) = length c" by simp
  then have "length c \<le> length buf" by simp
  with h show ?thesis by simp
qed

lemma completeCurrentChunk_cumulative:
  "chunks t = chunks s \<Longrightarrow> audioChunks t = audioChunks s \<Longrightarrow>
   chunks_cumulative s \<Longrightarrow> chunks_cumulative (completeCurrentChunk t)"
  by (cases "audioChunks s = []")
     (simp_all add: chunks_cumulative_def completeCurrentChunk_def new_Blob_def)

lemma stop_cumulative:
  assumes "chunks_cumulative s"
  shows "chunks_cumulative (fst (stop s))"
proof -
  have "chunks_cumulative (completeCurrentChunk t)"
    if "chunks t = chunks s" "audioChunks t = audioChunks s" for t
    using that assms by (rule completeCurrentChunk_cumulative)
  then show ?thesis
    using assms by (simp add: stop_def Let_def split: option.splits)
qed

lemma pause_cumulative:
  assumes "chunks_cumulative s"
  shows "chunks_cumulative (pause s)"
proof -
  have "chunks_cumulative (completeCurrentChunk t)"
    if "chunks t = chunks s" "audioChunks t = audioChunks s" for t
    using that assms by (rule completeCurrentChunk_cumulative)
  then show ?thesis
    using assms by (simp add: pause_def split: option.splits)
qed

lemma timer_callback_cumulative:
  assumes "chunks_cumulative s"
  shows "chunks_cumulative (timer_callback s)"
proof -
  have "chunks_cumulative (completeCurrentChunk s)"
    using assms by (intro completeCurrentChunk_cumulative [of s s]) simp_all
  then show ?thesis
    by (simp add: chunks_cumulative_def timer_callback_chunks)
qed

lemma ondataavailable_cumulative:
  "chunks_cumulative s \<Longrightarrow> chunks_cumulative (ondataavailable d s)"
  by (simp add: chunks_cumulative_def ondataavailable_def list_all_iff take_prefix_append
      del: take_append)

lemma step_cumulative:
  assumes "chunks_cumulative s"
  shows "chunks_cumulative (step e s)"
proof (cases e)
  case Stop with assms show ?thesis by (simp add: step_def stop_cumulative)
next
  case Pause with assms show ?thesis by (simp add: step_def pause_cumulative)
next
  case TimerFire
  show ?thesis
  proof (cases "pending_timers s")
    case Nil with TimerFire assms show ?thesis by (simp add: step_def)
  next
    case (Cons t ts)
    from assms have "chunks_cumulative (s\<lparr>pending_timers := ts\<rparr>)"
      by (simp add: chunks_cumulative_def)
    with TimerFire Cons show ?thesis by (simp add: step_def timer_callback_cumulative)
  qed
next
  case Deliver
  show ?thesis
  proof (cases "tasks s")
    case Nil with Deliver assms show ?thesis by (simp add: step_def)
  next
    case (Cons t ts)
    from assms have a: "chunks_cumulative (s\<lparr>tasks := ts\<rparr>)"
      by (simp add: chunks_cumulative_def)
    then have "chunks_cumulative (run_task t (s\<lparr>tasks := ts\<rparr>))"
      using ondataavailable_cumulative [OF a]
      by (cases t) (simp_all add: run_task_def chunks_cumulative_def onstop_def)
    with Deliver Cons show ?thesis by (simp add: step_def)
  qed
qed (use assms in \<open>auto simp: step_def chunks_cumulative_def
       initialize_def start_def resume_def cleanup_def split: option.splits sum.splits\<close>)

lemma run_cumulative: "chunks_cumulative s \<Longrightarrow> chunks_cumulative (run es s)"
  by (induction es arbitrary: s) (simp_all add: step_cumulative)

section \<open>Content types along a run\<close>

lemma encoding_update [simp]:
  "encoding (s\<lparr>mediaRecorder := x0\<rparr>) = encoding s"
  "encoding (s\<lparr>stream := x1\<rparr>) = encoding s"
  "encoding (s\<lparr>chunks := x2\<rparr>) = encoding s"
  "encoding (s\<lparr>currentChunkIndex := x3\<rparr>) = encoding s"
  "encoding (s\<lparr>chunkStartTime := x4\<rparr>) = encoding s"
  "encoding (s\<lparr>recordingStartTime := x5\<rparr>) = encoding s"
  "encoding (s\<lparr>chunkTimer := x6\<rparr>) = encoding s"
  "encoding (s\<lparr>audioChunks := x7\<rparr>) = encoding s"
  "encoding (s\<lparr>isRecording := x8\<rparr>) = encoding s"
  "encoding (s\<lparr>mainBlob := x9\<rparr>) = encoding s"
  "encoding (s\<lparr>mainAudioUrl := x10\<rparr>) = encoding s"
  "encoding (s\<lparr>clock := x11\<rparr>) = encoding s"
  "encoding (s\<lparr>tasks := x12\<rparr>) = encoding s"
  "encoding (s\<lparr>pending_timers := x13\<rparr>) = encoding s"
  "encoding (s\<lparr>fresh := x14\<rparr>) = encoding s"
  "encoding (s\<lparr>live_streams := x15\<rparr>) = encoding s"
  "encoding (s\<lparr>completed := x16\<rparr>) = encoding s"
  "encoding (s\<lparr>idb := x17\<rparr>) = encoding s"
  "encoding (s\<lparr>device_grant := x18\<rparr>) = encoding s"
  by (simp_all add: encoding_def)

lemma configured_update [simp]:
  "configured (s\<lparr>mediaRecorder := x0\<rparr>) = configured s"
  "configured (s\<lparr>stream := x1\<rparr>) = configured s"
  "configured (s\<lparr>chunks := x2\<rparr>) = configured s"
  "configured (s\<lparr>currentChunkIndex := x3\<rparr>) = configured s"
  "configured (s\<lparr>chunkStartTime := x4\<rparr>) = configured s"
  "configured (s\<lparr>recordingStartTime := x5\<rparr>) = configured s"
  "configured (s\<lparr>chunkTimer := x6\<rparr>) = configured s"
  "configured (s\<lparr>audioChunks := x7\<rparr>) = configured s"
  "configured (s\<lparr>isRecording := x8\<rparr>) = configured s"
  "configured (s\<lparr>mainBlob := x9\<rparr>) = configured s"
  "configured (s\<lparr>mainAudioUrl := x10\<rparr>) = configured s"
  "configured (s\<lparr>clock := x11\<rparr>) = configured s"
  "configured (s\<lparr>tasks := x12\<rparr>) = configured s"
  "configured (s\<lparr>pending_timers := x13\<rparr>) = configured s"
  "configured (s\<lparr>fresh := x14\<rparr>) = configured s"
  "configured (s\<lparr>live_streams := x15\<rparr>) = configured s"
  "configured (s\<lparr>completed := x16\<rparr>) = configured s"
  "configured (s\<lparr>idb := x17\<rparr>) = configured s"
  "configured (s\<lparr>device_grant := x18\<rparr>) = configured s"
  by (simp_all add: configured_def)

lemma platform_frame [simp]:
  "webm_encoding (clearChunkTimer s) = webm_encoding s"
  "webm_encoding (startChunkTimer s) = webm_encoding s"
  "webm_encoding (completeCurrentChunk s) = webm_encoding s"
  "webm_encoding (saveChunkToStorage c s) = webm_encoding s"
  "webm_encoding (saveCompleteRecordingToStorage s) = webm_encoding s"
  "webm_encoding (chunk_open_done c s) = webm_encoding s"
  "webm_encoding (recording_open_done s) = webm_encoding s"
  by (simp_all add: clearChunkTimer_def startChunkTimer_def completeCurrentChunk_def
      saveChunkToStorage_def saveCompleteRecordingToStorage_def chunk_open_done_def
      recording_open_done_def split: option.splits open_result.splits)

lemma encoding_frame [simp]:
  "encoding (clearChunkTimer s) = encoding s"
  "encoding (startChunkTimer s) = encoding s"
  "encoding (completeCurrentChunk s) = encoding s"
  "encoding (saveChunkToStorage c s) = encoding s"
  "encoding (saveCompleteRecordingToStorage s) = encoding s"
  "encoding (chunk_open_done c s) = encoding s"
  "encoding (recording_open_done s) = encoding s"
  "encoding (stop_tracks s) = encoding s"
  by (simp_all add: encoding_def stop_tracks_def split: option.splits)

lemma configured_frame [simp]:
  "configured (clearChunkTimer s) = configured s"
  "configured (startChunkTimer s) = configured s"
  "configured (completeCurrentChunk s) = configured s"
  "configured (saveChunkToStorage c s) = configured s"
  "configured (saveCompleteRecordingToStorage s) = configured s"
  "configured (chunk_open_done c s) = configured s"
  "configured (recording_open_done s) = configured s"
  "configured (stop_tracks s) = configured s"
  by (simp_all add: configured_def stop_tracks_def split: option.splits)

lemma mr_stop_typed:
  "mr_encoding m = enc \<Longrightarrow> mr_mimeType m = cfg \<Longrightarrow>
   list_all (task_typed enc) (snd (mr_stop m)) \<and> mr_encoding (fst (mr_stop m)) = enc \<and>
   mr_mimeType (fst (mr_stop m)) = cfg"
  by (simp add: mr_stop_def)

lemma mr_start_typed:
  "mr_start m = Inr m' \<Longrightarrow> mr_encoding m' = mr_encoding m \<and> mr_mimeType m' = mr_mimeType m"
  by (auto simp: mr_start_def split: if_splits)

lemma types_inv_recorder:
  "types_inv s \<Longrightarrow> mediaRecorder s = Some m \<Longrightarrow>
   mr_encoding m = encoding s \<and> mr_mimeType m = configured s"
  by (simp add: types_inv_def)

lemma completeCurrentChunk_types: "types_inv t \<Longrightarrow> types_inv (completeCurrentChunk t)"
  by (simp add: types_inv_def completeCurrentChunk_def new_Blob_def split: option.splits)

lemma stop_types:
  assumes "types_inv s"
  shows "types_inv (fst (stop s))"
proof (cases "mediaRecorder s")
  case None then show ?thesis using assms by (simp add: stop_def)
next
  case (Some m)
  from types_inv_recorder [OF assms Some]
  have "mr_encoding m = encoding s" "mr_mimeType m = configured s" by simp_all
  from mr_stop_typed [OF this] assms Some
  have "types_inv ((clearChunkTimer s)
          \<lparr>mediaRecorder := Some (fst (mr_stop m)),
           tasks := tasks s @ snd (mr_stop m), isRecording := False\<rparr>)"
    by (simp add: types_inv_def)
  then show ?thesis
    using Some assms by (simp add: stop_def Let_def completeCurrentChunk_types)
qed

lemma pause_types:
  assumes "types_inv s"
  shows "types_inv (pause s)"
proof (cases "mediaRecorder s")
  case None then show ?thesis using assms by (simp add: pause_def)
next
  case (Some m)
  from types_inv_recorder [OF assms Some]
  have "mr_encoding m = encoding s" "mr_mimeType m = configured s" by simp_all
  from mr_stop_typed [OF this] assms Some
  have "types_inv ((clearChunkTimer s)
          \<lparr>mediaRecorder := Some (fst (mr_stop m)), tasks := tasks s @ snd (mr_stop m)\<rparr>)"
    by (simp add: types_inv_def)
  then show ?thesis
    using Some assms by (simp add: pause_def completeCurrentChunk_types)
qed

lemma timer_callback_types:
  assumes "types_inv s"
  shows "types_inv (timer_callback s)"
proof -
  let ?c = "completeCurrentChunk s"
  have c: "types_inv ?c" using assms by (rule completeCurrentChunk_types)
  show ?thesis
  proof (cases "mediaRecorder ?c")
    case None then show ?thesis using c by (simp add: timer_callback_def Let_def)
  next
    case (Some m)
    from types_inv_recorder [OF c Some]
    have "mr_encoding m = encoding ?c" "mr_mimeType m = configured ?c" by simp_all
    from mr_stop_typed [OF this]
    have t: "list_all (task_typed (encoding ?c)) (snd (mr_stop m))"
      and m: "mr_encoding (fst (mr_stop m)) = encoding ?c"
        "mr_mimeType (fst (mr_stop m)) = configured ?c" by simp_all
    have "types_inv (?c\<lparr>mediaRecorder := Some m', tasks := tasks ?c @ snd (mr_stop m),
             chunkStartTime := clock ?c\<rparr>)"
      if "mr_encoding m' = encoding ?c" "mr_mimeType m' = configured ?c" for m'
      using c t that by (simp add: types_inv_def)
    moreover have "types_inv (startChunkTimer u)" if "types_inv u" for u
      using that by (simp add: types_inv_def split: option.splits)
    ultimately show ?thesis
      using Some c m
      by (auto simp: timer_callback_def Let_def split: sum.splits dest: mr_start_typed)
  qed
qed

lemma start_types:
  assumes "types_inv s"
  shows "types_inv (fst (start s))"
proof (cases "mediaRecorder s")
  case None then show ?thesis using assms by (simp add: start_def)
next
  case (Some m)
  from types_inv_recorder [OF assms Some]
  have "mr_encoding m = encoding s" "mr_mimeType m = configured s" by simp_all
  then show ?thesis
    using Some assms
    by (auto simp: start_def types_inv_def split: sum.splits dest: mr_start_typed)
qed

lemma resume_types:
  assumes "types_inv s"
  shows "types_inv (fst (resume s))"
proof (cases "mediaRecorder s")
  case None then show ?thesis using assms by (simp add: resume_def)
next
  case (Some m)
  from types_inv_recorder [OF assms Some]
  have "mr_encoding m = encoding s" "mr_mimeType m = configured s" by simp_all
  then show ?thesis
    using Some assms
    by (auto simp: resume_def types_inv_def split: sum.splits dest: mr_start_typed)
qed

lemma clearChunkTimer_types: "types_inv u \<Longrightarrow> types_inv (clearChunkTimer u)"
  by (simp add: types_inv_def)

lemma stop_tracks_types:
  assumes "types_inv u"
  shows "types_inv (stop_tracks u)"
proof (cases "mediaRecorder u")
  case None
  with assms show ?thesis by (simp add: stop_tracks_def types_inv_def split: option.splits)
next
  case (Some m)
  from types_inv_recorder [OF assms Some]
  have "mr_encoding m = encoding u" "mr_mimeType m = configured u" by simp_all
  from mr_stop_typed [OF this] Some assms show ?thesis
    by (simp add: stop_tracks_def types_inv_def split: option.splits)
qed

lemma cleanup_types:
  assumes "types_inv s"
  shows "types_inv (cleanup s)"
proof -
  define u where "u = stop_tracks (clearChunkTimer (if isRecording s then fst (stop s) else s))"
  have "types_inv (if isRecording s then fst (stop s) else s)"
    using assms stop_types [OF assms] by simp
  then have "types_inv u"
    unfolding u_def by (intro stop_tracks_types clearChunkTimer_types)
  then have "types_inv (u\<lparr>mainAudioUrl := None, mediaRecorder := None, chunks := [],
      audioChunks := [], completed := [], currentChunkIndex := 0, isRecording := False,
      mainBlob := None\<rparr>)"
    by (simp add: types_inv_def)
  then show ?thesis by (simp add: cleanup_def u_def)
qed

lemma run_task_types:
  assumes "types_inv (s\<lparr>tasks := t # ts\<rparr>)"
  shows "types_inv (run_task t (s\<lparr>tasks := ts\<rparr>))"
proof (cases t)
  case (DataAvailable d)
  with assms show ?thesis
    by (simp add: run_task_def ondataavailable_def types_inv_def)
next
  case StopEvent
  with assms show ?thesis
    by (simp add: run_task_def onstop_def types_inv_def new_Blob_def)
next
  case (ChunkOpenRequest c)
  with assms show ?thesis
    by (simp add: run_task_def types_inv_def)
next
  case RecordingOpenRequest
  with assms show ?thesis
    by (simp add: run_task_def types_inv_def)
qed

lemma step_types:
  assumes "types_inv s"
  shows "types_inv (step e s)"
proof (cases e)
  case Initialize with assms show ?thesis
    by (simp add: step_def initialize_def types_inv_def)
       (simp add: encoding_def configured_def)
next
  case Start with assms show ?thesis by (simp add: step_def start_types)
next
  case Stop with assms show ?thesis by (simp add: step_def stop_types)
next
  case Pause with assms show ?thesis by (simp add: step_def pause_types)
next
  case Resume with assms show ?thesis by (simp add: step_def resume_types)
next
  case Cleanup with assms show ?thesis by (simp add: step_def cleanup_types)
next
  case (Capture bs) with assms show ?thesis
    by (auto simp: step_def types_inv_def mr_capture_def split: option.splits)
next
  case TimerFire
  show ?thesis
  proof (cases "pending_timers s")
    case Nil with TimerFire assms show ?thesis by (simp add: step_def)
  next
    case (Cons t ts)
    from assms have "types_inv (s\<lparr>pending_timers := ts\<rparr>)"
      by (simp add: types_inv_def)
    with TimerFire Cons show ?thesis by (simp add: step_def timer_callback_types)
  qed
next
  case Deliver
  show ?thesis
  proof (cases "tasks s")
    case Nil with Deliver assms show ?thesis by (simp add: step_def)
  next
    case (Cons t ts)
    with assms have "types_inv (s\<lparr>tasks := t # ts\<rparr>)" by (simp add: types_inv_def)
    from run_task_types [OF this] Deliver Cons show ?thesis by (simp add: step_def)
  qed
next
  case (Tick n) with assms show ?thesis by (simp add: step_def types_inv_def)
qed

lemma run_types: "types_inv s \<Longrightarrow> types_inv (run es s)"
  by (induction es arbitrary: s) (simp_all add: step_types)

section \<open>The recorder does not depend on the store\<close>

lemma forget_store_idb [simp]: "forget_store (s\<lparr>idb := d\<rparr>) = forget_store s"
  by (simp add: forget_store_def)

lemma forget_store_save [simp]:
  "forget_store (saveChunkToStorage c s) = forget_store s"
  "forget_store (saveCompleteRecordingToStorage s) = forget_store s"
  by (simp_all add: forget_store_def saveChunkToStorage_def saveCompleteRecordingToStorage_def)

lemma forget_store_open_done [simp]:
  "forget_store (chunk_open_done c s) = forget_store s"
  "forget_store (recording_open_done s) = forget_store s"
  by (simp_all add: chunk_open_done_def recording_open_done_def
      split: open_result.splits option.splits)

lemma forget_store_handlers:
  "forget_store (ondataavailable b (s\<lparr>idb := d\<rparr>)) = forget_store (ondataavailable b s)"
  "forget_store (onstop (s\<lparr>idb := d\<rparr>)) = forget_store (onstop s)"
  by (simp_all add: ondataavailable_def onstop_def) (simp_all add: forget_store_def)

lemma methods_idb:
  "initialize (s\<lparr>idb := d\<rparr>) = ((fst (initialize s))\<lparr>idb := d\<rparr>, snd (initialize s))"
  "start (s\<lparr>idb := d\<rparr>) = ((fst (start s))\<lparr>idb := d\<rparr>, snd (start s))"
  "stop (s\<lparr>idb := d\<rparr>) = ((fst (stop s))\<lparr>idb := d\<rparr>, snd (stop s))"
  "pause (s\<lparr>idb := d\<rparr>) = (pause s)\<lparr>idb := d\<rparr>"
  "resume (s\<lparr>idb := d\<rparr>) = ((fst (resume s))\<lparr>idb := d\<rparr>, snd (resume s))"
  by (simp_all add: initialize_def start_def stop_def pause_def resume_def Let_def
      startChunkTimer_def clearChunkTimer_def completeCurrentChunk_def
      split: option.splits sum.splits)

lemma idb_commutes:
  "clearChunkTimer (s\<lparr>idb := d\<rparr>) = (clearChunkTimer s)\<lparr>idb := d\<rparr>"
  "stop_tracks (s\<lparr>idb := d\<rparr>) = (stop_tracks s)\<lparr>idb := d\<rparr>"
  by (simp_all add: clearChunkTimer_def stop_tracks_def split: option.splits)

lemma cleanup_idb_commutes: "cleanup (s\<lparr>idb := d\<rparr>) = (cleanup s)\<lparr>idb := d\<rparr>"
  by (simp add: cleanup_def methods_idb idb_commutes)

lemma timer_callback_idb:
  "forget_store (timer_callback (s\<lparr>idb := d, pending_timers := ts\<rparr>)) =
   forget_store (timer_callback (s\<lparr>pending_timers := ts\<rparr>))"
  by (simp add: timer_callback_def Let_def startChunkTimer_def clearChunkTimer_def
      completeCurrentChunk_def forget_store_def split: option.splits sum.splits)

lemma handlers_idb:
  "forget_store (ondataavailable b (s\<lparr>idb := d, tasks := ts\<rparr>)) =
   forget_store (ondataavailable b (s\<lparr>tasks := ts\<rparr>))"
  "forget_store (onstop (s\<lparr>idb := d, tasks := ts\<rparr>)) = forget_store (onstop (s\<lparr>tasks := ts\<rparr>))"
  "forget_store (chunk_open_done c (s\<lparr>idb := d, tasks := ts\<rparr>)) =
   forget_store (chunk_open_done c (s\<lparr>tasks := ts\<rparr>))"
  "forget_store (recording_open_done (s\<lparr>idb := d, tasks := ts\<rparr>)) =
   forget_store (recording_open_done (s\<lparr>tasks := ts\<rparr>))"
  by (simp_all add: ondataavailable_def onstop_def) (simp_all add: forget_store_def)

lemma forget_store_idb_tasks:
  "forget_store (s\<lparr>idb := d, tasks := ts\<rparr>) = forget_store (s\<lparr>tasks := ts\<rparr>)"
  by (simp add: forget_store_def)

lemma step_forget_store:
  "forget_store (step e (s\<lparr>idb := d\<rparr>)) = forget_store (step e s)"
proof (cases e)
  case Deliver
  then show ?thesis
    by (simp add: step_def run_task_def handlers_idb forget_store_idb_tasks
        split: list.splits task.splits)
next
  case TimerFire
  then show ?thesis
    by (simp add: step_def timer_callback_idb split: list.splits)
next
  case (Capture bs)
  then show ?thesis by (simp add: step_def forget_store_def split: option.splits)
next
  case (Tick n)
  then show ?thesis by (simp add: step_def forget_store_def)
qed (simp_all add: step_def methods_idb cleanup_idb_commutes)

lemma save_frames [simp]:
  "clock (saveChunkToStorage c s) = clock s"
  "isRecording (saveChunkToStorage c s) = isRecording s"
  "recordingStartTime (saveChunkToStorage c s) = recordingStartTime s"
  "idb (saveChunkToStorage c s) = idb s"
  "clock (saveCompleteRecordingToStorage s) = clock s"
  "recordingStartTime (saveCompleteRecordingToStorage s) = recordingStartTime s"
  "idb (saveCompleteRecordingToStorage s) = idb s"
  by (simp_all add: saveChunkToStorage_def saveCompleteRecordingToStorage_def)

section \<open>A new recorder, and the stopped sample session\<close>

lemma new_recorder_invs:
  "session_inv (new_recorder d g w we m)"
  "fragments_nonempty (new_recorder d g w we m)"
  "chunks_nonempty (new_recorder d g w we m)"
  "chunks_cumulative (new_recorder d g w we m)"
  "types_inv (new_recorder d g w we m)"
  by (simp_all add: new_recorder_def session_inv_def fragments_nonempty_def chunks_nonempty_def
      chunks_cumulative_def types_inv_def)

lemma step_encoding: "encoding (step e s) = encoding s \<and> configured (step e s) = configured s"
proof (cases e)
  case TimerFire
  then show ?thesis
    by (simp add: step_def timer_callback_def Let_def split: list.splits option.splits sum.splits)
next
  case Deliver
  then show ?thesis
    by (simp add: step_def run_task_def ondataavailable_def onstop_def
        split: list.splits task.splits)
qed (simp_all add: step_def initialize_def start_def stop_def pause_def resume_def cleanup_def
      Let_def split: option.splits sum.splits)

lemma run_encoding: "encoding (run es s) = encoding s \<and> configured (run es s) = configured s"
  by (induction es arbitrary: s) (simp_all add: step_encoding)

lemma demo_stopped_facts:
  "tasks demo_stopped = []"
  "mainBlob demo_stopped = Some \<lparr>blob_bytes = [1, 2, 3], blob_type = ''audio/wav''\<rparr>"
  "currentChunkIndex demo_stopped = 2"
  "clock demo_stopped = 0"
  "isRecording demo_stopped = False"
  "recordingStartTime demo_stopped = 0"
  by (simp_all add: demo_stopped_def demo_recording_eval method_defs)

lemma chromium_recording_eval:
  "chunks chromium_recording = [\<lparr>blob_bytes = [1], blob_type = ''audio/wav''\<rparr>]"
  "mainBlob chromium_recording = Some \<lparr>blob_bytes = [1, 2], blob_type = ''audio/wav''\<rparr>"
  "audioChunks chromium_recording =
     [\<lparr>blob_bytes = [1], blob_type = ''audio/webm;codecs=opus''\<rparr>,
      \<lparr>blob_bytes = [2], blob_type = ''audio/webm;codecs=opus''\<rparr>]"
  "mediaRecorder chromium_recording =
     Some \<lparr>mr_state = Recording, mr_mimeType = ''audio/webm'',
           mr_encoding = ''audio/webm;codecs=opus'', mr_gathered = [3]\<rparr>"
  by (simp_all add: chromium_recording_def demo_events_def new_recorder_def healthy_db_def
      method_defs)

section \<open>Pause and resume\<close>

text \<open>
  Claim C3: from the paused state, reached by \<^verbatim>\<open>pause()\<close> from a recording in
  progress, \<^verbatim>\<open>resume()\<close> begins a new capture leg and arms a new rotation timer.
  The code does not do so. \<^verbatim>\<open>pause()\<close> leaves \<^verbatim>\<open>isRecording\<close> set, and
  \<^verbatim>\<open>resume()\<close> returns at once when \<^verbatim>\<open>isRecording\<close> is set: after a pause
  the capture primitive is inactive and no timer is armed, and \<^verbatim>\<open>resume()\<close> changes
  nothing of that.
\<close>

theorem resume_after_pause_does_nothing:
  "mediaRecorder s \<noteq> None \<Longrightarrow> isRecording s \<Longrightarrow>
     resume (pause s) = (pause s, Inr ()) \<and> isRecording (pause s) \<and>
     chunkTimer (pause s) = None \<and>
     (\<exists>m. mediaRecorder (pause s) = Some m \<and> mr_state m = Inactive)"
  by (auto simp: pause_def resume_def completeCurrentChunk_def clearChunkTimer_def mr_stop_def
      split: option.splits)

text \<open>
  The sample session is such a recording: paused and resumed, it is as it was after
  the pause, with no time-out pending.
\<close>

theorem resume_after_pause_witness:
  "mediaRecorder demo_recording \<noteq> None \<and> isRecording demo_recording \<and>
   resume (pause demo_recording) = (pause demo_recording, Inr ()) \<and>
   isRecording (pause demo_recording) \<and> chunkTimer (pause demo_recording) = None \<and>
   pending_timers (pause demo_recording) = []"
proof -
  have a: "mediaRecorder demo_recording \<noteq> None" by (simp add: demo_recording_eval)
  have b: "isRecording demo_recording" by (simp add: demo_recording_eval)
  have c: "pending_timers (pause demo_recording) = []"
    by (simp add: demo_recording_eval method_defs)
  from resume_after_pause_does_nothing [OF a b] a b c show ?thesis by simp
qed

section \<open>Reset\<close>

text \<open>
  Claim C4: reset moves the session to idle, discards the chunks in memory, clears both
  persisted slots and releases the device. The code does not clear the slots:
  \<^verbatim>\<open>cleanup()\<close>, which is all the hook's \<^verbatim>\<open>resetRecording\<close> calls on the recorder,
  performs no store operation, and \<^verbatim>\<open>clearStoredRecordings\<close> is never called. In the
  stopped sample session, with no task waiting, both slots hold an entry; after the reset
  both hold the same entry and a check for recovery still finds the recording. When the
  reset interrupts the sample session, the two events queued by its own stop are delivered
  after it and write both slots again.
\<close>

theorem reset_leaves_persisted_slots:
  "tasks demo_stopped = [] \<and>
   chunks_store (idb (cleanup demo_stopped)) =
     Some [(''latest_chunk'',
        \<lparr>ce_data = \<lparr>blob_bytes = [3], blob_type = ''audio/webm''\<rparr>,
         ce_index = 2, ce_timestamp = 0, ce_duration = 0\<rparr>)] \<and>
   recordings_store (idb (cleanup demo_stopped)) =
     Some [(''latest_recording'',
        \<lparr>re_data = Some \<lparr>blob_bytes = [1, 2, 3], blob_type = ''audio/wav''\<rparr>,
         re_timestamp = 0, re_duration = 0\<rparr>)] \<and>
   snd (checkForRecovery (idb (cleanup demo_stopped))) =
     Resolved \<lparr>hasRecovery = True,
       recording = Some \<lparr>blob_bytes = [1, 2, 3], blob_type = ''audio/wav''\<rparr>\<rparr> \<and>
   chunks_store (idb (run [Cleanup, Deliver, Deliver, Deliver, Deliver] demo_recording)) =
     Some [(''latest_chunk'',
        \<lparr>ce_data = \<lparr>blob_bytes = [3], blob_type = ''audio/webm''\<rparr>,
         ce_index = 0, ce_timestamp = 0, ce_duration = 0\<rparr>)] \<and>
   recordings_store (idb (run [Cleanup, Deliver, Deliver, Deliver, Deliver] demo_recording)) =
     Some [(''latest_recording'',
        \<lparr>re_data = Some \<lparr>blob_bytes = [3], blob_type = ''audio/wav''\<rparr>,
         re_timestamp = 0, re_duration = 0\<rparr>)]"
proof -
  have "tasks demo_stopped = []" by (simp add: demo_stopped_facts)
  moreover have "idb (cleanup demo_stopped) = idb demo_stopped" by (rule cleanup_idb)
  moreover have "idb (run [Cleanup, Deliver, Deliver, Deliver, Deliver] demo_recording) =
    (idb demo_stopped)
      \<lparr>chunks_store := Some [(''latest_chunk'',
        \<lparr>ce_data = \<lparr>blob_bytes = [3], blob_type = ''audio/webm''\<rparr>,
         ce_index = 0, ce_timestamp = 0, ce_duration = 0\<rparr>)],
       recordings_store := Some [(''latest_recording'',
        \<lparr>re_data = Some \<lparr>blob_bytes = [3], blob_type = ''audio/wav''\<rparr>,
         re_timestamp = 0, re_duration = 0\<rparr>)]\<rparr>"
    by (simp add: idb_demo_stopped) (simp add: demo_recording_eval method_defs)
  ultimately show ?thesis
    by (simp add: idb_demo_stopped checkForRecovery_def idb_open_def os_get_def)
qed

section \<open>Guards of the state machine\<close>

text \<open>
  Claim C5: a transition attempted from a state that does not list it is a no-op that
  does not throw and changes nothing; in particular \<^verbatim>\<open>start()\<close> while recording.
  The code does otherwise in three places. \<^verbatim>\<open>start()\<close> has no guard on the state:
  while the capture primitive is recording it discards the chunks and the fragment
  buffer, resets the index counter and throws the primitive's \<^verbatim>\<open>InvalidStateError\<close>.
  \<^verbatim>\<open>pause()\<close> leaves \<^verbatim>\<open>isRecording\<close> set, so a second \<^verbatim>\<open>pause()\<close> passes the
  guard and completes one more chunk. \<^verbatim>\<open>resume()\<close> tests only \<^verbatim>\<open>isRecording\<close>,
  so on an initialized or stopped recorder it begins a capture leg and arms a timer.
\<close>

theorem unlisted_transitions_change_state:
  "(mediaRecorder s = Some m \<and> mr_state m = Recording \<longrightarrow>
      snd (start s) = Inl InvalidStateError \<and> chunks (fst (start s)) = [] \<and>
      audioChunks (fst (start s)) = [] \<and> currentChunkIndex (fst (start s)) = 0) \<and>
   (mediaRecorder s = Some m \<and> isRecording s \<and> audioChunks s \<noteq> [] \<longrightarrow>
      chunks (pause (pause s)) = chunks (pause s) @ [new_Blob (audioChunks s) ''audio/wav''] \<and>
      currentChunkIndex (pause (pause s)) = currentChunkIndex (pause s) + 1) \<and>
   (mediaRecorder s = Some m \<and> mr_state m = Inactive \<and> \<not> isRecording s \<longrightarrow>
      snd (resume s) = Inr () \<and>
      mediaRecorder (fst (resume s)) = Some (m\<lparr>mr_state := Recording, mr_gathered := []\<rparr>) \<and>
      chunkTimer (fst (resume s)) = Some (fresh s) \<and>
      fresh s \<in> set (pending_timers (fst (resume s))))"
proof -
  have "mediaRecorder s = Some m \<and> mr_state m = Recording \<longrightarrow>
      snd (start s) = Inl InvalidStateError \<and> chunks (fst (start s)) = [] \<and>
      audioChunks (fst (start s)) = [] \<and> currentChunkIndex (fst (start s)) = 0"
    by (simp add: start_def mr_start_def)
  moreover have "mediaRecorder s = Some m \<and> isRecording s \<and> audioChunks s \<noteq> [] \<longrightarrow>
      chunks (pause (pause s)) = chunks (pause s) @ [new_Blob (audioChunks s) ''audio/wav''] \<and>
      currentChunkIndex (pause (pause s)) = currentChunkIndex (pause s) + 1"
    by (simp add: pause_def completeCurrentChunk_def)
  moreover have "mediaRecorder s = Some m \<and> mr_state m = Inactive \<and> \<not> isRecording s \<longrightarrow>
      snd (resume s) = Inr () \<and>
      mediaRecorder (fst (resume s)) = Some (m\<lparr>mr_state := Recording, mr_gathered := []\<rparr>) \<and>
      chunkTimer (fst (resume s)) = Some (fresh s) \<and>
      fresh s \<in> set (pending_timers (fst (resume s)))"
    by (simp add: resume_def mr_start_def startChunkTimer_def)
  ultimately show ?thesis by blast
qed

text \<open>
  The sample session is recording with one chunk: \<^verbatim>\<open>start()\<close> throws and leaves no
  chunk, and each of two calls of \<^verbatim>\<open>pause()\<close> advances the index. The stopped sample
  session has no timer: \<^verbatim>\<open>resume()\<close> arms one and starts the capture primitive.
\<close>

theorem unlisted_transitions_witness:
  "isRecording demo_recording \<and>
   chunks demo_recording = [\<lparr>blob_bytes = [1], blob_type = ''audio/wav''\<rparr>] \<and>
   currentChunkIndex demo_recording = 1 \<and>
   snd (start demo_recording) = Inl InvalidStateError \<and>
   chunks (fst (start demo_recording)) = [] \<and>
   currentChunkIndex (fst (start demo_recording)) = 0 \<and>
   currentChunkIndex (pause demo_recording) = 2 \<and>
   currentChunkIndex (pause (pause demo_recording)) = 3 \<and>
   \<not> isRecording demo_stopped \<and> chunkTimer demo_stopped = None \<and>
   snd (resume demo_stopped) = Inr () \<and>
   chunkTimer (fst (resume demo_stopped)) = Some 8 \<and>
   mediaRecorder (fst (resume demo_stopped)) =
     Some \<lparr>mr_state = Recording, mr_mimeType = ''audio/webm'', mr_encoding = ''audio/webm'',
           mr_gathered = []\<rparr>"
proof -
  let ?m = "\<lparr>mr_state = Recording, mr_mimeType = ''audio/webm'', mr_encoding = ''audio/webm'',
      mr_gathered = [3]\<rparr>"
  let ?n = "\<lparr>mr_state = Inactive, mr_mimeType = ''audio/webm'', mr_encoding = ''audio/webm'',
      mr_gathered = []\<rparr>"
  have a: "mediaRecorder demo_recording = Some ?m" "mr_state ?m = Recording"
    "isRecording demo_recording" "audioChunks demo_recording \<noteq> []"
    "chunks demo_recording = [\<lparr>blob_bytes = [1], blob_type = ''audio/wav''\<rparr>]"
    "currentChunkIndex demo_recording = 1"
    by (simp_all add: demo_recording_eval)
  have b: "currentChunkIndex (pause demo_recording) = 2"
    by (simp add: demo_recording_eval pause_def completeCurrentChunk_def)
  have c: "mediaRecorder demo_stopped = Some ?n" "mr_state ?n = Inactive"
    "\<not> isRecording demo_stopped" "chunkTimer demo_stopped = None" "fresh demo_stopped = 8"
    by (simp_all add: demo_stopped_def demo_recording_eval method_defs)
  from unlisted_transitions_change_state [of demo_recording ?m]
    unlisted_transitions_change_state [of demo_stopped ?n] a b c
  show ?thesis by simp
qed

section \<open>Recovery\<close>

text \<open>
  Claim C6 as stated, that a stored entry with an empty byte buffer gives no recovery,
  fails: a session started and stopped at once, with its queued tasks run, has stored
  a full recording of no bytes, and the check for recovery answers that there is one.
\<close>

theorem empty_payload_recovery_counterexample:
  "recordings_store (idb (run [Initialize, Start, Stop, Deliver, Deliver, Deliver] demo_recorder)) =
     Some [(''latest_recording'',
        \<lparr>re_data = Some \<lparr>blob_bytes = [], blob_type = ''audio/wav''\<rparr>,
         re_timestamp = 0, re_duration = 0\<rparr>)] \<and>
   snd (checkForRecovery
     (idb (run [Initialize, Start, Stop, Deliver, Deliver, Deliver] demo_recorder))) =
     Resolved \<lparr>hasRecovery = True,
       recording = Some \<lparr>blob_bytes = [], blob_type = ''audio/wav''\<rparr>\<rparr>"
  by (simp add: demo_defs method_defs checkForRecovery_def)

text \<open>
  Claim C6, amended: \<^verbatim>\<open>checkForRecovery()\<close> resolves with \<^verbatim>\<open>hasRecovery\<close> true if
  and only if no operation of the store fails, the database is at version 1, and the
  recording slot holds an entry whose data is present, of whatever length.
\<close>

theorem hasRecovery_iff_data_present:
  "(\<exists>r. snd (checkForRecovery d) = Resolved r \<and> hasRecovery r) \<longleftrightarrow>
     healthy d \<and> db_version d = 1 \<and>
     (\<exists>st e b. recordings_store d = Some st \<and> os_get ''latest_recording'' st = Some e \<and>
        re_data e = Some b)"
  by (auto simp: checkForRecovery_def healthy_def idb_open_def no_recovery_def
      split: option.splits if_splits)

text \<open>The database of the stopped sample session is such a store.\<close>

theorem hasRecovery_iff_witness:
  "healthy (idb demo_stopped) \<and> db_version (idb demo_stopped) = 1 \<and>
   (\<exists>r. snd (checkForRecovery (idb demo_stopped)) = Resolved r \<and> hasRecovery r)"
proof -
  have a: "healthy (idb demo_stopped)" by (simp add: idb_demo_stopped healthy_def)
  have b: "db_version (idb demo_stopped) = 1" by (simp add: idb_demo_stopped)
  have c: "\<exists>st e b. recordings_store (idb demo_stopped) = Some st \<and>
      os_get ''latest_recording'' st = Some e \<and> re_data e = Some b"
    by (simp add: idb_demo_stopped os_get_def)
  from hasRecovery_iff_data_present [of "idb demo_stopped"] a b c show ?thesis by blast
qed

section \<open>The full recording\<close>

text \<open>
  Claim C1 as stated, that \<^verbatim>\<open>stop()\<close> returns the concatenation of every completed
  chunk with the last chunk finalized, fails. Stopping the sample session, in which the
  bytes 1, 2 and 3 were captured, returns the bytes 1, 2 while the completed chunks hold
  1 and 1, 2; and stopping a session in which two bytes were captured and the timer has
  not fired returns \<^verbatim>\<open>null\<close>.
\<close>

theorem stop_returns_stale_recording_counterexample:
  "snd (stop demo_recording) = Some \<lparr>blob_bytes = [1, 2], blob_type = ''audio/wav''\<rparr> \<and>
   chunks (fst (stop demo_recording)) =
     [\<lparr>blob_bytes = [1], blob_type = ''audio/wav''\<rparr>,
      \<lparr>blob_bytes = [1, 2], blob_type = ''audio/wav''\<rparr>] \<and>
   concat (map blob_bytes (chunks (fst (stop demo_recording)))) = [1, 1, 2] \<and>
   snd (stop (run [Initialize, Start, Capture [1, 2]] demo_recorder)) = None"
  by (simp add: demo_recording_eval) (simp add: demo_defs method_defs)

text \<open>
  Claim C1, amended: for every session stopped from an active recording with no task
  waiting, once the two events queued by \<^verbatim>\<open>stop()\<close> have been delivered the full
  recording is a single blob declared as \<^verbatim>\<open>audio/wav\<close> whose bytes are those of
  every raw fragment delivered since \<^verbatim>\<open>start()\<close>, in order, followed by what the last
  capture leg gathered. Nothing is said of what \<^verbatim>\<open>stop()\<close> itself returns.
\<close>

theorem full_recording_after_stop_events:
  assumes "mediaRecorder s = Some m" and "mr_state m = Recording" and "isRecording s"
    and "tasks s = []"
  shows "mainBlob (run [Stop, Deliver, Deliver] s) =
           Some \<lparr>blob_bytes = concat (map blob_bytes (audioChunks s)) @ mr_gathered m,
                 blob_type = ''audio/wav''\<rparr>"
proof -
  let ?d = "\<lparr>blob_bytes = mr_gathered m, blob_type = mr_encoding m\<rparr>"
  have t: "tasks (fst (stop s)) = [DataAvailable ?d, StopEvent]"
    and a: "audioChunks (fst (stop s)) = audioChunks s"
    using assms by (simp_all add: stop_def Let_def mr_stop_def)
  let ?s1 = "step Deliver (fst (stop s))"
  have t1: "\<exists>r. tasks ?s1 = StopEvent # r"
    and a1: "concat (map blob_bytes (audioChunks ?s1)) =
             concat (map blob_bytes (audioChunks s)) @ mr_gathered m"
    using t a
    by (simp_all add: step_def run_task_def ondataavailable_def saveChunkToStorage_def
        blob_size_def)
  from t1 obtain r where "tasks ?s1 = StopEvent # r" ..
  then have "mainBlob (step Deliver ?s1) =
      Some (new_Blob (audioChunks ?s1) ''audio/wav'')"
    by (simp add: step_def run_task_def onstop_def)
  with a1 show ?thesis by (simp add: step_def [of Stop] new_Blob_def)
qed

text \<open>The sample session, stopped: the full recording holds the bytes 1, 2, 3.\<close>

theorem full_recording_witness:
  "isRecording demo_recording \<and> tasks demo_recording = [] \<and>
   mainBlob (run [Stop, Deliver, Deliver] demo_recording) =
     Some \<lparr>blob_bytes = [1, 2, 3], blob_type = ''audio/wav''\<rparr>"
proof -
  have a: "mediaRecorder demo_recording =
      Some \<lparr>mr_state = Recording, mr_mimeType = ''audio/webm'', mr_encoding = ''audio/webm'',
      mr_gathered = [3]\<rparr>"
    by (simp add: demo_recording_eval)
  have b: "mr_state \<lparr>mr_state = Recording, mr_mimeType = ''audio/webm'', mr_encoding = ''audio/webm'',
      mr_gathered = [3]\<rparr>
     = Recording" by simp
  have c: "isRecording demo_recording" by (simp add: demo_recording_eval)
  have d: "tasks demo_recording = []" by (simp add: demo_recording_eval)
  have e: "audioChunks demo_recording =
     [\<lparr>blob_bytes = [1], blob_type = ''audio/webm''\<rparr>,
      \<lparr>blob_bytes = [2], blob_type = ''audio/webm''\<rparr>]" by (simp add: demo_recording_eval)
  from full_recording_after_stop_events [OF a b c d] c d e show ?thesis by simp
qed

section \<open>Rotation\<close>

text \<open>
  Claim C2 as stated, that a timer fire drains the buffer so that no fragment is in more
  than one chunk, fails: in the sample session the chunk at index 0 holds the fragment
  with byte 1; the next fire makes the chunk at index 1 from both fragments, byte 1
  again included, and leaves both fragments in the buffer.
\<close>

theorem chunk_repeats_earlier_fragments_counterexample:
  "chunks demo_recording = [\<lparr>blob_bytes = [1], blob_type = ''audio/wav''\<rparr>] \<and>
   audioChunks demo_recording =
     [\<lparr>blob_bytes = [1], blob_type = ''audio/webm''\<rparr>,
      \<lparr>blob_bytes = [2], blob_type = ''audio/webm''\<rparr>] \<and>
   chunks (step TimerFire demo_recording) =
     [\<lparr>blob_bytes = [1], blob_type = ''audio/wav''\<rparr>,
      \<lparr>blob_bytes = [1, 2], blob_type = ''audio/wav''\<rparr>] \<and>
   audioChunks (step TimerFire demo_recording) =
     [\<lparr>blob_bytes = [1], blob_type = ''audio/webm''\<rparr>,
      \<lparr>blob_bytes = [2], blob_type = ''audio/webm''\<rparr>]"
  by (simp add: demo_recording_eval method_defs)

text \<open>
  Claim C2, amended: a fire of the rotation timer leaves the fragment buffer as it is;
  when the buffer is empty it adds no chunk and keeps the index counter, otherwise it
  adds one chunk made of all the fragments in the buffer and advances the counter by one.
  In every run of a new recorder each completed chunk is a beginning of the chunk the
  next fire would make.
\<close>

theorem timer_fire_snapshots_whole_buffer:
  "(pending_timers s \<noteq> [] \<longrightarrow>
      audioChunks (step TimerFire s) = audioChunks s \<and>
      chunks (step TimerFire s) =
        (if audioChunks s = [] then chunks s
         else chunks s @ [new_Blob (audioChunks s) ''audio/wav'']) \<and>
      currentChunkIndex (step TimerFire s) =
        (if audioChunks s = [] then currentChunkIndex s else currentChunkIndex s + 1)) \<and>
   list_all
     (\<lambda>c. take (length (blob_bytes c))
            (blob_bytes (new_Blob (audioChunks (run es (new_recorder d g w we m))) ''audio/wav'')) =
          blob_bytes c)
     (chunks (run es (new_recorder d g w we m)))"
proof -
  have "chunks_cumulative (run es (new_recorder d g w we m))"
    by (rule run_cumulative) (simp add: chunks_cumulative_def new_recorder_def)
  then show ?thesis
    by (cases "pending_timers s")
       (simp_all add: step_def timer_callback_chunks chunks_cumulative_def new_Blob_def
          completeCurrentChunk_def)
qed

text \<open>
  In the sample session a timer is pending and the buffer holds two fragments: the
  fire adds the chunk with bytes 1, 2, of which the earlier chunk is a beginning.
\<close>

theorem timer_fire_witness:
  "pending_timers demo_recording \<noteq> [] \<and> audioChunks demo_recording \<noteq> [] \<and>
   audioChunks (step TimerFire demo_recording) = audioChunks demo_recording \<and>
   chunks (step TimerFire demo_recording) =
     chunks demo_recording @ [\<lparr>blob_bytes = [1, 2], blob_type = ''audio/wav''\<rparr>] \<and>
   currentChunkIndex (step TimerFire demo_recording) = 2 \<and>
   list_all (\<lambda>c. take (length (blob_bytes c)) [1, 2] = blob_bytes c) (chunks demo_recording)"
proof -
  have a: "pending_timers demo_recording \<noteq> []" by (simp add: demo_recording_eval)
  have b: "audioChunks demo_recording =
     [\<lparr>blob_bytes = [1], blob_type = ''audio/webm''\<rparr>,
      \<lparr>blob_bytes = [2], blob_type = ''audio/webm''\<rparr>]" by (simp add: demo_recording_eval)
  have c: "currentChunkIndex demo_recording = 1" by (simp add: demo_recording_eval)
  from timer_fire_snapshots_whole_buffer
    [of demo_recording demo_events healthy_db True True "''audio/webm''" "''audio/ogg''"] a b c
  show ?thesis by (simp add: demo_recording_def demo_recorder_def new_Blob_def)
qed

section \<open>Persistence faults\<close>

text \<open>
  Claim C7: when the store is unavailable or one of its operations fails,
  \<^verbatim>\<open>checkForRecovery\<close> resolves with no recovery and \<^verbatim>\<open>clearStoredRecordings\<close>
  resolves, neither rejecting; and recording does not depend on the store: whatever
  database is put in place of the recorder's, every method call, timer fire and task
  leaves the recorder the same apart from the database and the waiting store requests,
  \<^verbatim>\<open>start()\<close> and \<^verbatim>\<open>stop()\<close> return the same, \<^verbatim>\<open>start()\<close> on an initialized
  recorder at rest succeeds and \<^verbatim>\<open>stop()\<close> ends a recording.
\<close>

theorem persistence_faults_do_not_surface:
  "(\<not> healthy d \<or> db_version d \<noteq> 1 \<longrightarrow> snd (checkForRecovery d) = Resolved no_recovery) \<and>
   snd (clearStoredRecordings d) = Resolved () \<and>
   forget_store (step e (s\<lparr>idb := d\<rparr>)) = forget_store (step e s) \<and>
   snd (start (s\<lparr>idb := d\<rparr>)) = snd (start s) \<and>
   snd (stop (s\<lparr>idb := d\<rparr>)) = snd (stop s) \<and>
   (\<forall>m. mediaRecorder s = Some m \<and> mr_state m = Inactive \<longrightarrow>
      snd (start (s\<lparr>idb := d\<rparr>)) = Inr () \<and> isRecording (fst (start (s\<lparr>idb := d\<rparr>)))) \<and>
   (mediaRecorder s \<noteq> None \<and> isRecording s \<longrightarrow> \<not> isRecording (fst (stop (s\<lparr>idb := d\<rparr>))))"
proof -
  have "\<not> healthy d \<or> db_version d \<noteq> 1 \<longrightarrow> snd (checkForRecovery d) = Resolved no_recovery"
    by (auto simp: checkForRecovery_def healthy_def idb_open_def split: option.splits)
  moreover have "snd (clearStoredRecordings d) = Resolved ()"
    by (simp add: clearStoredRecordings_def split: open_result.splits)
  moreover have "\<forall>m. mediaRecorder s = Some m \<and> mr_state m = Inactive \<longrightarrow>
      snd (start s) = Inr () \<and> isRecording (fst (start s))"
    by (simp add: start_def mr_start_def)
  moreover have "mediaRecorder s \<noteq> None \<and> isRecording s \<longrightarrow> \<not> isRecording (fst (stop s))"
    by (auto simp: stop_def Let_def)
  ultimately show ?thesis
    by (simp add: step_forget_store methods_idb)
qed

text \<open>
  With no \<^verbatim>\<open>indexedDB\<close> in the environment the check finds no recovery, the
  initialized sample recorder starts, and the sample session stops.
\<close>

theorem persistence_faults_witness:
  "\<not> healthy blank_db \<and>
   snd (checkForRecovery blank_db) = Resolved no_recovery \<and>
   snd (clearStoredRecordings blank_db) = Resolved () \<and>
   snd (start ((fst (initialize demo_recorder))\<lparr>idb := blank_db\<rparr>)) = Inr () \<and>
   isRecording (fst (start ((fst (initialize demo_recorder))\<lparr>idb := blank_db\<rparr>))) \<and>
   \<not> isRecording (fst (stop (demo_recording\<lparr>idb := blank_db\<rparr>)))"
proof -
  have a: "\<not> healthy blank_db" by (simp add: healthy_def blank_db_def)
  have b: "\<exists>m. mediaRecorder (fst (initialize demo_recorder)) = Some m \<and> mr_state m = Inactive"
    by (simp add: demo_defs initialize_def)
  have c: "mediaRecorder demo_recording \<noteq> None \<and> isRecording demo_recording"
    by (simp add: demo_recording_eval)
  have "snd (start ((fst (initialize demo_recorder))\<lparr>idb := blank_db\<rparr>)) = Inr () \<and>
      isRecording (fst (start ((fst (initialize demo_recorder))\<lparr>idb := blank_db\<rparr>)))"
    using persistence_faults_do_not_surface [of blank_db Start "fst (initialize demo_recorder)"] b
    by blast
  moreover have "\<not> isRecording (fst (stop (demo_recording\<lparr>idb := blank_db\<rparr>)))"
    using persistence_faults_do_not_surface [of blank_db Stop demo_recording] c by blast
  moreover have "snd (checkForRecovery blank_db) = Resolved no_recovery \<and>
      snd (clearStoredRecordings blank_db) = Resolved ()"
    using persistence_faults_do_not_surface [of blank_db Stop demo_recording] a by blast
  ultimately show ?thesis using a by blast
qed

section \<open>Slots\<close>

text \<open>
  Claim C8: a write to a persisted slot clears the slot's store and then inserts the one
  new entry. When no store operation fails and the database is new, or at version 1
  with its stores, then after \<^verbatim>\<open>saveChunkToStorage\<close> and the completion of its
  request the chunk store holds exactly the entry \<^verbatim>\<open>latest_chunk\<close> with the chunk
  just written, and after \<^verbatim>\<open>saveCompleteRecordingToStorage\<close> the recording store holds
  exactly the entry \<^verbatim>\<open>latest_recording\<close> with the current full recording, whatever the
  stores held before.
\<close>

theorem put_replaces_slot:
  assumes "healthy (idb s)" and "tasks s = []" and "db_version (idb s) \<le> 1"
    and "db_version (idb s) = 1 \<longrightarrow>
           chunks_store (idb s) \<noteq> None \<and> recordings_store (idb s) \<noteq> None"
    and "mainBlob s \<noteq> None"
  shows "chunks_store (idb (step Deliver (saveChunkToStorage c s))) =
           Some [(''latest_chunk'',
             \<lparr>ce_data = c, ce_index = currentChunkIndex s, ce_timestamp = clock s,
              ce_duration = (if isRecording s then clock s - recordingStartTime s else 0)\<rparr>)] \<and>
         recordings_store (idb (step Deliver (saveCompleteRecordingToStorage s))) =
           Some [(''latest_recording'',
             \<lparr>re_data = mainBlob s, re_timestamp = clock s,
              re_duration = (if recordingStartTime s \<noteq> 0
                             then clock s - recordingStartTime s else 0)\<rparr>)]"
  using assms
  by (cases "db_version (idb s) = 0")
     (auto simp: step_def run_task_def saveChunkToStorage_def saveCompleteRecordingToStorage_def
        chunk_open_done_def recording_open_done_def idb_open_def healthy_def create_stores_def
        os_put_def os_clear_def split: option.splits)

text \<open>
  The stopped sample session holds a chunk entry with byte 3; writing a chunk with byte
  9 leaves that one entry alone in the slot.
\<close>

theorem put_replaces_slot_witness:
  "healthy (idb demo_stopped) \<and> tasks demo_stopped = [] \<and> db_version (idb demo_stopped) = 1 \<and>
   chunks_store (idb demo_stopped) =
     Some [(''latest_chunk'',
        \<lparr>ce_data = \<lparr>blob_bytes = [3], blob_type = ''audio/webm''\<rparr>,
         ce_index = 2, ce_timestamp = 0, ce_duration = 0\<rparr>)] \<and>
   chunks_store (idb (step Deliver
       (saveChunkToStorage \<lparr>blob_bytes = [9], blob_type = ''audio/webm''\<rparr> demo_stopped))) =
     Some [(''latest_chunk'',
        \<lparr>ce_data = \<lparr>blob_bytes = [9], blob_type = ''audio/webm''\<rparr>,
         ce_index = 2, ce_timestamp = 0, ce_duration = 0\<rparr>)] \<and>
   recordings_store (idb (step Deliver (saveCompleteRecordingToStorage demo_stopped))) =
     Some [(''latest_recording'',
        \<lparr>re_data = Some \<lparr>blob_bytes = [1, 2, 3], blob_type = ''audio/wav''\<rparr>,
         re_timestamp = 0, re_duration = 0\<rparr>)]"
proof -
  have a: "healthy (idb demo_stopped)" by (simp add: idb_demo_stopped healthy_def)
  have b: "tasks demo_stopped = []" by (simp add: demo_stopped_facts)
  have c: "db_version (idb demo_stopped) \<le> 1" by (simp add: idb_demo_stopped)
  have d: "db_version (idb demo_stopped) = 1 \<longrightarrow>
      chunks_store (idb demo_stopped) \<noteq> None \<and> recordings_store (idb demo_stopped) \<noteq> None"
    by (simp add: idb_demo_stopped)
  have e: "mainBlob demo_stopped \<noteq> None" by (simp add: demo_stopped_facts)
  from put_replaces_slot [OF a b c d e, of "\<lparr>blob_bytes = [9], blob_type = ''audio/webm''\<rparr>"]
    a b
  show ?thesis by (simp add: demo_stopped_facts idb_demo_stopped)
qed

section \<open>Chunk indices\<close>

text \<open>
  Claim C9: in every run of a new recorder the index counter equals the number of
  chunks of the session, the completion callback has been passed exactly these chunks
  with the indices 0, 1, 2, \<dots> in order, and no chunk is empty; completing a chunk on an
  empty fragment buffer changes nothing, and on a buffer that is not empty it adds one
  chunk, passes it with the current index and advances the index by one.
\<close>

theorem chunk_indices_dense_from_zero:
  "currentChunkIndex (run es (new_recorder d g w we m)) =
     length (chunks (run es (new_recorder d g w we m))) \<and>
   map snd (completed (run es (new_recorder d g w we m))) =
     [0..<length (chunks (run es (new_recorder d g w we m)))] \<and>
   map fst (completed (run es (new_recorder d g w we m))) = chunks (run es (new_recorder d g w we m)) \<and>
   list_all (\<lambda>c. blob_bytes c \<noteq> []) (chunks (run es (new_recorder d g w we m))) \<and>
   (audioChunks s = [] \<longrightarrow> completeCurrentChunk s = s) \<and>
   (audioChunks s \<noteq> [] \<longrightarrow>
      chunks (completeCurrentChunk s) = chunks s @ [new_Blob (audioChunks s) ''audio/wav''] \<and>
      completed (completeCurrentChunk s) =
        completed s @ [(new_Blob (audioChunks s) ''audio/wav'', currentChunkIndex s)] \<and>
      currentChunkIndex (completeCurrentChunk s) = currentChunkIndex s + 1)"
proof -
  have "session_inv (run es (new_recorder d g w we m))"
    by (rule run_session_inv) (rule new_recorder_invs)
  moreover have "chunks_nonempty (run es (new_recorder d g w we m))"
    using run_nonempty [OF new_recorder_invs(2) new_recorder_invs(3)] by simp
  ultimately show ?thesis
    by (simp add: session_inv_def chunks_nonempty_def completeCurrentChunk_def)
qed

text \<open>
  A new recorder has an empty buffer; the sample session has one chunk, passed with
  index 0, and a buffer that is not empty, so completing a chunk passes index 1.
\<close>

theorem chunk_indices_witness:
  "audioChunks demo_recorder = [] \<and> completeCurrentChunk demo_recorder = demo_recorder \<and>
   audioChunks demo_recording \<noteq> [] \<and>
   length (chunks demo_recording) = 1 \<and>
   currentChunkIndex demo_recording = 1 \<and>
   map snd (completed demo_recording) = [0] \<and>
   map snd (completed (completeCurrentChunk demo_recording)) = [0, 1] \<and>
   currentChunkIndex (completeCurrentChunk demo_recording) = 2"
proof -
  have a: "audioChunks demo_recorder = []" by (simp add: demo_defs)
  have b: "audioChunks demo_recording \<noteq> []" by (simp add: demo_recording_eval)
  have c: "length (chunks demo_recording) = 1" by (simp add: demo_recording_eval)
  from chunk_indices_dense_from_zero
         [of demo_events healthy_db True True "''audio/webm''" "''audio/ogg''" demo_recorder]
    chunk_indices_dense_from_zero
         [of demo_events healthy_db True True "''audio/webm''" "''audio/ogg''" demo_recording]
    a b c
  show ?thesis by (simp add: demo_recording_def [symmetric] demo_recorder_def [symmetric])
qed

section \<open>Declared content type\<close>

text \<open>
  Claim C10 as stated, that the declared content type never reflects the encoding of the
  bytes, fails on a platform that does not support \<^verbatim>\<open>audio/webm\<close> and records
  \<^verbatim>\<open>audio/wav\<close> when constructed without options: there the fragments are typed
  \<^verbatim>\<open>audio/wav\<close>, as the chunk and the full recording made from them are.
\<close>

theorem declared_type_equals_encoding_counterexample:
  "audioChunks wav_platform_recording =
     [\<lparr>blob_bytes = [1], blob_type = ''audio/wav''\<rparr>,
      \<lparr>blob_bytes = [2], blob_type = ''audio/wav''\<rparr>] \<and>
   chunks wav_platform_recording = [\<lparr>blob_bytes = [1], blob_type = ''audio/wav''\<rparr>] \<and>
   mainBlob wav_platform_recording = Some \<lparr>blob_bytes = [1, 2], blob_type = ''audio/wav''\<rparr>"
  by (simp add: wav_platform_recording_def demo_events_def new_recorder_def healthy_db_def
      method_defs)

text \<open>
  Claim C10, amended: every chunk and the full recording are declared as
  \<^verbatim>\<open>audio/wav\<close> unconditionally: \<^verbatim>\<open>onstop\<close> makes the full recording, and
  \<^verbatim>\<open>completeCurrentChunk\<close> each chunk, from the bytes of the fragments under that
  type, and so it is in every run of a new recorder. The capture primitive is constructed
  with \<^verbatim>\<open>audio/webm\<close> whenever that type is supported and without options otherwise.
  The fragments carry the type the platform stamps on them, so the declared type differs
  from theirs whenever the platform's encoding is not \<^verbatim>\<open>audio/wav\<close>.
\<close>

theorem declared_type_is_wav:
  "list_all (\<lambda>c. blob_type c = ''audio/wav'') (chunks (run es (new_recorder d g w we m))) \<and>
   map_option blob_type (mainBlob (run es (new_recorder d g w we m))) \<in>
     {None, Some ''audio/wav''} \<and>
   map_option mr_mimeType (mediaRecorder (run es (new_recorder d g w we m))) \<in>
     {None, Some (if w then ''audio/webm'' else [])} \<and>
   list_all (\<lambda>f. blob_type f = (if w then we else m))
     (audioChunks (run es (new_recorder d g w we m))) \<and>
   ((if w then we else m) \<noteq> ''audio/wav'' \<longrightarrow>
      list_all (\<lambda>f. blob_type f \<noteq> ''audio/wav'')
        (audioChunks (run es (new_recorder d g w we m)))) \<and>
   mainBlob (onstop s) =
     Some \<lparr>blob_bytes = concat (map blob_bytes (audioChunks s)), blob_type = ''audio/wav''\<rparr> \<and>
   (audioChunks s \<noteq> [] \<longrightarrow>
      chunks (completeCurrentChunk s) =
        chunks s @
        [\<lparr>blob_bytes = concat (map blob_bytes (audioChunks s)), blob_type = ''audio/wav''\<rparr>]) \<and>
   (device_grant s \<longrightarrow>
      map_option mr_mimeType (mediaRecorder (fst (initialize s))) =
        Some (if webm_supported s then ''audio/webm'' else []))"
proof -
  let ?R = "run es (new_recorder d g w we m)"
  have inv: "types_inv ?R"
    by (rule run_types) (rule new_recorder_invs)
  have enc: "encoding ?R = (if w then we else m)" "configured ?R = (if w then ''audio/webm'' else [])"
    by (simp_all add: run_encoding) (simp_all add: encoding_def configured_def new_recorder_def)
  from inv enc have frag: "list_all (\<lambda>f. blob_type f = (if w then we else m)) (audioChunks ?R)"
    by (simp add: types_inv_def)
  then have "(if w then we else m) \<noteq> ''audio/wav'' \<longrightarrow>
      list_all (\<lambda>f. blob_type f \<noteq> ''audio/wav'') (audioChunks ?R)"
    by (auto simp: list_all_iff)
  moreover have "mainBlob (onstop s) =
     Some \<lparr>blob_bytes = concat (map blob_bytes (audioChunks s)), blob_type = ''audio/wav''\<rparr>"
    by (simp add: onstop_def new_Blob_def)
  moreover have "audioChunks s \<noteq> [] \<longrightarrow>
      chunks (completeCurrentChunk s) =
        chunks s @
        [\<lparr>blob_bytes = concat (map blob_bytes (audioChunks s)), blob_type = ''audio/wav''\<rparr>]"
    by (simp add: completeCurrentChunk_def new_Blob_def)
  moreover have "device_grant s \<longrightarrow>
      map_option mr_mimeType (mediaRecorder (fst (initialize s))) =
        Some (if webm_supported s then ''audio/webm'' else [])"
    by (simp add: initialize_def)
  moreover from inv enc have "list_all (\<lambda>c. blob_type c = ''audio/wav'') (chunks ?R)"
    "map_option blob_type (mainBlob ?R) \<in> {None, Some ''audio/wav''}"
    "map_option mr_mimeType (mediaRecorder ?R) \<in> {None, Some (if w then ''audio/webm'' else [])}"
    by (simp_all add: types_inv_def)
  ultimately show ?thesis using frag by blast
qed

text \<open>
  On the platform that stamps \<^verbatim>\<open>audio/webm;codecs=opus\<close> the sample session has its
  chunk and its full recording declared as \<^verbatim>\<open>audio/wav\<close>, made from fragments of the
  stamped type by a capture primitive constructed with \<^verbatim>\<open>audio/webm\<close>.
\<close>

theorem declared_type_witness:
  "chunks chromium_recording = [\<lparr>blob_bytes = [1], blob_type = ''audio/wav''\<rparr>] \<and>
   mainBlob chromium_recording = Some \<lparr>blob_bytes = [1, 2], blob_type = ''audio/wav''\<rparr> \<and>
   audioChunks chromium_recording =
     [\<lparr>blob_bytes = [1], blob_type = ''audio/webm;codecs=opus''\<rparr>,
      \<lparr>blob_bytes = [2], blob_type = ''audio/webm;codecs=opus''\<rparr>] \<and>
   list_all (\<lambda>c. blob_type c = ''audio/wav'') (chunks chromium_recording) \<and>
   list_all (\<lambda>f. blob_type f = ''audio/webm;codecs=opus'') (audioChunks chromium_recording) \<and>
   list_all (\<lambda>f. blob_type f \<noteq> ''audio/wav'') (audioChunks chromium_recording) \<and>
   map_option mr_mimeType (mediaRecorder chromium_recording) = Some ''audio/webm'' \<and>
   mainBlob (onstop chromium_recording) =
     Some \<lparr>blob_bytes = [1, 2], blob_type = ''audio/wav''\<rparr> \<and>
   chunks (completeCurrentChunk chromium_recording) =
     [\<lparr>blob_bytes = [1], blob_type = ''audio/wav''\<rparr>,
      \<lparr>blob_bytes = [1, 2], blob_type = ''audio/wav''\<rparr>] \<and>
   map_option mr_mimeType (mediaRecorder (fst (initialize chromium_recording))) =
     Some ''audio/webm''"
proof -
  have g: "device_grant chromium_recording" "webm_supported chromium_recording"
    by (simp_all add: chromium_recording_def demo_events_def new_recorder_def healthy_db_def
        method_defs)
  have ne: "''audio/webm;codecs=opus'' \<noteq> ''audio/wav''" by simp
  from declared_type_is_wav
    [of demo_events healthy_db True True "''audio/webm;codecs=opus''" "[]" chromium_recording]
  have "list_all (\<lambda>c. blob_type c = ''audio/wav'') (chunks chromium_recording) \<and>
   list_all (\<lambda>f. blob_type f = ''audio/webm;codecs=opus'') (audioChunks chromium_recording) \<and>
   list_all (\<lambda>f. blob_type f \<noteq> ''audio/wav'') (audioChunks chromium_recording) \<and>
   mainBlob (onstop chromium_recording) =
     Some \<lparr>blob_bytes = concat (map blob_bytes (audioChunks chromium_recording)),
           blob_type = ''audio/wav''\<rparr> \<and>
   (audioChunks chromium_recording \<noteq> [] \<longrightarrow>
      chunks (completeCurrentChunk chromium_recording) =
        chunks chromium_recording @
        [\<lparr>blob_bytes = concat (map blob_bytes (audioChunks chromium_recording)),
          blob_type = ''audio/wav''\<rparr>]) \<and>
   map_option mr_mimeType (mediaRecorder (fst (initialize chromium_recording))) =
     Some ''audio/webm''"
    using g ne unfolding chromium_recording_def [symmetric] by simp
  then show ?thesis by (simp add: chromium_recording_eval)
qed

end
